theory Spec2Isabelle
  imports Main "HOL-Library.DAList"
begin

section \<open>Python values, dictionaries and exceptions\<close>

text \<open>
  The values that travel through the backend are strings or Python's \<open>None\<close>
  (\<open>dict.get\<close> and \<open>dict.pop(k, None)\<close> produce \<open>None\<close> for a missing key, and the
  token attributes of a provider client are \<open>None\<close> until it has authenticated).
  \<open>truthy\<close> is Python's truth value: \<open>None\<close> and the empty string are false.
\<close>

datatype pyval = PyNone | Str string

fun truthy :: "pyval \<Rightarrow> bool" where
  "truthy PyNone = False"
| "truthy (Str s) = (s \<noteq> [])"

text \<open>
  A dictionary with string keys is an association list with unique keys, in insertion
  order: \<open>d[k] = v\<close> is \<open>DAList.update k v d\<close> (an existing key keeps its place, a new
  key is appended), \<open>d.get(k)\<close> is \<open>DAList.lookup d k\<close>, \<open>d.items()\<close> is
  \<open>DAList.impl_of d\<close>. The configured mapping and an error response are only ever
  looked up, and are plain association lists read with \<open>map_of\<close>.
\<close>

type_synonym pydict = "(string, pyval) alist"

type_synonym strdict = "(string \<times> string) list"

text \<open>\<open>error.response\<close> of a botocore \<open>ClientError\<close>: a dictionary of dictionaries.\<close>

type_synonym response = "(string \<times> strdict) list"

text \<open>
  The exceptions of the model. \<open>ClientError\<close> carries its \<open>response\<close>; \<open>Boto3Error\<close>
  has no \<open>response\<close> attribute; \<open>OtherException\<close> stands for every exception class
  that is neither of the two (it is not caught by \<open>except (Boto3Error, ClientError)\<close>).
\<close>

datatype exn =
    ClientError response
  | Boto3Error
  | AttributeError
  | KeyError string
  | IntegrityError
  | OtherException string

text \<open>\<open>dict.pop(k, None)\<close>: the value removed (or \<open>None\<close>) and the remaining dictionary.\<close>

definition pop :: "string \<Rightarrow> pydict \<Rightarrow> pyval \<times> pydict" where
  "pop k d = ((case DAList.lookup d k of Some v \<Rightarrow> v | None \<Rightarrow> PyNone), DAList.delete k d)"

section \<open>Configuration\<close>

text \<open>
  The session of a request: the dictionary the request works on, and what the session
  store holds for it. \<open>session[k] = v\<close> writes the dictionary, \<open>session.save()\<close>
  stores it, \<open>session.get(k)\<close> is \<open>None\<close> for a missing key.
\<close>

record session =
  s_data :: "string \<rightharpoonup> pyval"
  s_stored :: "string \<rightharpoonup> pyval"

text \<open>
  The two settings the backend reads with \<open>getattr(settings, name, default)\<close>:
  \<open>None\<close> is an unset setting.
\<close>

record settings =
  COGNITO_ATTR_MAPPING :: "strdict option"
  COGNITO_CREATE_UNKNOWN_USERS :: "bool option"

text \<open>
  The environment of \<open>CognitoUser\<close>: the settings, the field names of the user model
  (\<open>[f.name for f in user_class._meta.get_fields()]\<close>) and the two helpers of
  \<open>djwarrant.utils\<close>, \<open>cognito_to_dict\<close> and \<open>get_cognito\<close>, whose source is not part of
  the files at hand and which are therefore parameters of the model.
\<close>

type_synonym attribute = "string \<times> pyval"

record env =
  settings :: settings
  django_fields :: "string list"
  utils_cognito_to_dict :: "attribute list \<Rightarrow> strdict \<Rightarrow> pydict"
  utils_get_cognito :: "session \<Rightarrow> exn + unit"

definition default_attr_mapping :: strdict where
  "default_attr_mapping =
     [(''email'', ''email''), (''given_name'', ''first_name''), (''family_name'', ''last_name'')]"

text \<open>The class attribute \<open>CognitoUser.COGNITO_ATTR_MAPPING\<close> (backend.py, lines 18-24).\<close>

definition CognitoUser_COGNITO_ATTR_MAPPING :: "env \<Rightarrow> strdict" where
  "CognitoUser_COGNITO_ATTR_MAPPING e =
     (case COGNITO_ATTR_MAPPING (settings e) of None \<Rightarrow> default_attr_mapping | Some m \<Rightarrow> m)"

text \<open>\<open>getattr(settings, 'COGNITO_CREATE_UNKNOWN_USERS', True)\<close> (line 35).\<close>

definition create_unknown_users :: "env \<Rightarrow> bool" where
  "create_unknown_users e =
     (case COGNITO_CREATE_UNKNOWN_USERS (settings e) of None \<Rightarrow> True | Some b \<Rightarrow> b)"

text \<open>
  Modelled from the spec: \<open>djwarrant.utils.cognito_to_dict\<close> is imported by backend.py
  but its source is missing. The specification of the attribute mapper says that every
  provider key present in the mapping appears under its local field name, that the
  leftover keys keep their raw names, and that values are passed through unchanged.
\<close>

definition rename :: "strdict \<Rightarrow> string \<Rightarrow> string" where
  "rename mapping name = (case map_of mapping name of Some f \<Rightarrow> f | None \<Rightarrow> name)"

definition cognito_to_dict :: "attribute list \<Rightarrow> strdict \<Rightarrow> pydict" where
  "cognito_to_dict attribute_list mapping =
     fold (\<lambda>(name, v) d. DAList.update (rename mapping name) v d) attribute_list DAList.empty"

section \<open>The local user store\<close>

text \<open>
  The user table of the web framework, keyed by the unique \<open>username\<close> column; a row
  holds the other columns that have been written. A model instance has its username,
  its field values and the attributes set on it that are not fields of the model
  (they live on the instance only and are never stored).
\<close>

type_synonym row = "string \<rightharpoonup> pyval"

type_synonym store = "string \<rightharpoonup> row"

record user =
  u_username :: pyval
  u_fields :: row
  u_attrs :: row

text \<open>\<open>setattr(user, k, v)\<close>: a model field is set on the instance, any other name
  becomes a plain attribute of the instance.\<close>

definition setattr :: "string list \<Rightarrow> string \<Rightarrow> pyval \<Rightarrow> user \<Rightarrow> user" where
  "setattr fs k v u =
     (if k \<in> set fs
      then (if k = ''username'' then u\<lparr>u_username := v\<rparr>
            else u\<lparr>u_fields := (u_fields u)(k \<mapsto> v)\<rparr>)
      else u\<lparr>u_attrs := (u_attrs u)(k \<mapsto> v)\<rparr>)"

text \<open>\<open>getattr(user, k)\<close>, with \<open>None\<close> for a name that was never set.\<close>

definition getattr :: "string list \<Rightarrow> user \<Rightarrow> string \<Rightarrow> pyval option" where
  "getattr fs u k =
     (if k \<in> set fs
      then (if k = ''username'' then Some (u_username u) else u_fields u k)
      else u_attrs u k)"

text \<open>\<open>for k, v in d.items(): setattr(user, k, v)\<close>.\<close>

definition setattrs :: "string list \<Rightarrow> pydict \<Rightarrow> user \<Rightarrow> user" where
  "setattrs fs d u = fold (\<lambda>(k, v). setattr fs k v) (DAList.impl_of d) u"

text \<open>\<open>user_class.objects.get(username=username)\<close>; \<open>None\<close> is \<open>DoesNotExist\<close>.\<close>

definition objects_get :: "store \<Rightarrow> string \<Rightarrow> user option" where
  "objects_get st uname =
     (case st uname of
        None \<Rightarrow> None
      | Some r \<Rightarrow> Some \<lparr>u_username = Str uname, u_fields = r, u_attrs = Map.empty\<rparr>)"

text \<open>
  \<open>user.save()\<close> for an instance loaded under the key \<open>key\<close>: the row is rewritten, under
  the instance's current username; the unique and not-null constraints of the username
  column raise \<open>IntegrityError\<close>.
\<close>

definition save :: "store \<Rightarrow> string \<Rightarrow> user \<Rightarrow> exn + store" where
  "save st key u =
     (case u_username u of
        PyNone \<Rightarrow> Inl IntegrityError
      | Str n \<Rightarrow>
          if n \<noteq> key \<and> st n \<noteq> None then Inl IntegrityError
          else Inr ((st(key := None))(n \<mapsto> u_fields u)))"

text \<open>\<open>objects.create(**params)\<close>: a new row.\<close>

definition create :: "store \<Rightarrow> user \<Rightarrow> exn + store" where
  "create st u =
     (case u_username u of
        PyNone \<Rightarrow> Inl IntegrityError
      | Str n \<Rightarrow>
          if st n \<noteq> None then Inl IntegrityError
          else Inr (st(n \<mapsto> u_fields u)))"

text \<open>
  \<open>objects.update_or_create(username=username, defaults=defaults)\<close>: the framework
  documents it as \<open>get\<close>, then \<open>setattr\<close> of every default and \<open>save\<close>; when there is no
  such row, a row is created from the lookup values updated with the defaults.
\<close>

definition update_or_create :: "string list \<Rightarrow> store \<Rightarrow> string \<Rightarrow> pydict \<Rightarrow> exn + (user \<times> store)" where
  "update_or_create fs st uname defaults =
     (case objects_get st uname of
        Some obj \<Rightarrow>
          (let obj' = setattrs fs defaults obj
           in case save st uname obj' of Inl x \<Rightarrow> Inl x | Inr st' \<Rightarrow> Inr (obj', st'))
      | None \<Rightarrow>
          (let obj' = setattrs fs defaults
                        \<lparr>u_username = Str uname, u_fields = Map.empty, u_attrs = Map.empty\<rparr>
           in case create st obj' of Inl x \<Rightarrow> Inl x | Inr st' \<Rightarrow> Inr (obj', st')))"

section \<open>CognitoUser.get_user_obj\<close>

text \<open>
  Lines 31-34: one round of the loop over the snapshot \<open>list(user_attrs.items())\<close>.
  A key that is no field of the user model is popped from \<open>user_attrs\<close> and put into
  \<open>extra_attrs\<close>.
\<close>

definition split_step :: "string list \<Rightarrow> string \<times> pyval \<Rightarrow> pydict \<times> pydict \<Rightarrow> pydict \<times> pydict" where
  "split_step fs = (\<lambda>(k, v) (user_attrs, extra_attrs).
     if k \<notin> set fs
     then (let (x, user_attrs') = pop k user_attrs
           in (user_attrs', DAList.update k x extra_attrs))
     else (user_attrs, extra_attrs))"

text \<open>Lines 27-34: the attribute mapper, giving \<open>(user_attrs, extra_attrs)\<close>.\<close>

definition attribute_mapper :: "env \<Rightarrow> attribute list \<Rightarrow> pydict \<times> pydict" where
  "attribute_mapper e attribute_list =
     (let user_attrs = utils_cognito_to_dict e attribute_list (CognitoUser_COGNITO_ATTR_MAPPING e)
      in fold (split_step (django_fields e)) (DAList.impl_of user_attrs) (user_attrs, DAList.empty))"

text \<open>
  Lines 35-50. The result is the value returned or the exception raised, together with
  the user store afterwards. A model instance is always true in \<open>if user:\<close>.
\<close>

definition get_user_obj :: "env \<Rightarrow> string \<Rightarrow> attribute list \<Rightarrow> store \<Rightarrow> (exn + user option) \<times> store" where
  "get_user_obj e uname attribute_list st =
     (let (user_attrs, extra_attrs) = attribute_mapper e attribute_list;
          fs = django_fields e
      in if create_unknown_users e
         then (case update_or_create fs st uname user_attrs of
                 Inl x \<Rightarrow> (Inl x, st)
               | Inr (u, st') \<Rightarrow> (Inr (Some (setattrs fs extra_attrs u)), st'))
         else (case objects_get st uname of
                 None \<Rightarrow> (Inr None, st)
               | Some obj \<Rightarrow>
                   (let u = setattrs fs user_attrs obj
                    in case save st uname u of
                         Inl x \<Rightarrow> (Inl x, st)
                       | Inr st' \<Rightarrow> (Inr (Some (setattrs fs extra_attrs u)), st'))))"

section \<open>The identity provider client\<close>

text \<open>
  The provider client (\<open>warrant.Cognito\<close>) is an external collaborator: each of its calls
  is a parameter giving the value returned or the exception raised.
\<close>

record tokens =
  access_token :: pyval
  id_token :: pyval
  refresh_token :: pyval

record provider =
  cognito_authenticate :: "string \<Rightarrow> string \<Rightarrow> exn + tokens"
  cognito_get_user :: "string \<Rightarrow> tokens \<Rightarrow> exn + attribute list"
  cognito_register :: "string \<Rightarrow> string \<Rightarrow> strdict \<Rightarrow> exn + pydict"
  cognito_confirm_sign_up :: "string \<Rightarrow> string \<Rightarrow> exn + unit"
  cognito_update_profile :: "strdict \<Rightarrow> strdict \<Rightarrow> exn + unit"

section \<open>AbstractCognitoBackend\<close>

definition UNAUTHORIZED_ERROR_CODE :: string where
  "UNAUTHORIZED_ERROR_CODE = ''NotAuthorizedException''"

definition USER_NOT_FOUND_ERROR_CODE :: string where
  "USER_NOT_FOUND_ERROR_CODE = ''UserNotFoundException''"

text \<open>\<open>error.response['Error']['Code']\<close> (line 90), with the errors of the three lookups.\<close>

definition error_code :: "exn \<Rightarrow> exn + string" where
  "error_code error =
     (case error of
        ClientError r \<Rightarrow>
          (case map_of r ''Error'' of
             None \<Rightarrow> Inl (KeyError ''Error'')
           | Some d \<Rightarrow>
               (case map_of d ''Code'' of
                  None \<Rightarrow> Inl (KeyError ''Code'')
                | Some c \<Rightarrow> Inr c))
      | _ \<Rightarrow> Inl AttributeError)"

text \<open>Lines 89-96.\<close>

definition handle_error_response :: "exn \<Rightarrow> exn + 'a option" where
  "handle_error_response error =
     (case error_code error of
        Inl x \<Rightarrow> Inl x
      | Inr c \<Rightarrow>
          if c \<in> set [UNAUTHORIZED_ERROR_CODE, USER_NOT_FOUND_ERROR_CODE] then Inr None
          else Inl error)"

text \<open>\<open>except (Boto3Error, ClientError)\<close>.\<close>

fun caught :: "exn \<Rightarrow> bool" where
  "caught (ClientError r) = True"
| "caught Boto3Error = True"
| "caught _ = False"

text \<open>Lines 83-85: the three tokens of the provider client are set on the user.\<close>

definition attach_tokens :: "string list \<Rightarrow> tokens \<Rightarrow> user \<Rightarrow> user" where
  "attach_tokens fs t u =
     setattr fs ''refresh_token'' (refresh_token t)
       (setattr fs ''id_token'' (id_token t)
         (setattr fs ''access_token'' (access_token t) u))"

text \<open>
  Lines 70-87. \<open>cognito_user.get_user()\<close> fetches the attribute list from the provider
  and hands it to \<open>get_user_obj\<close>; it is called outside the \<open>try\<close> block.
\<close>

definition authenticate :: "env \<Rightarrow> provider \<Rightarrow> string \<Rightarrow> string \<Rightarrow> store \<Rightarrow> (exn + user option) \<times> store" where
  "authenticate e p uname password st =
     (case cognito_authenticate p uname password of
        Inl x \<Rightarrow> (if caught x then (handle_error_response x, st) else (Inl x, st))
      | Inr t \<Rightarrow>
          (case cognito_get_user p uname t of
             Inl x \<Rightarrow> (Inl x, st)
           | Inr attribute_list \<Rightarrow>
               (case get_user_obj e uname attribute_list st of
                  (Inr (Some u), st') \<Rightarrow> (Inr (Some (attach_tokens (django_fields e) t u)), st')
                | r \<Rightarrow> r)))"

section \<open>CognitoBackend\<close>

definition session_set :: "string \<Rightarrow> pyval \<Rightarrow> session \<Rightarrow> session" where
  "session_set k v s = s\<lparr>s_data := (s_data s)(k \<mapsto> v)\<rparr>"

definition session_save :: "session \<Rightarrow> session" where
  "session_save s = s\<lparr>s_stored := s_data s\<rparr>"

definition session_get :: "session \<Rightarrow> string \<Rightarrow> pyval" where
  "session_get s k = (case s_data s k of None \<Rightarrow> PyNone | Some v \<Rightarrow> v)"

text \<open>
  Lines 100-112. Reading \<open>user.access_token\<close> raises \<open>AttributeError\<close> when the
  attribute was never set; the result is the value or exception, the user store and the
  session afterwards.
\<close>

definition CognitoBackend_authenticate ::
    "env \<Rightarrow> provider \<Rightarrow> session \<Rightarrow> string \<Rightarrow> string \<Rightarrow> store
       \<Rightarrow> (exn + user option) \<times> store \<times> session" where
  "CognitoBackend_authenticate e p sess uname password st =
     (case authenticate e p uname password st of
        (Inr (Some u), st') \<Rightarrow>
          (case getattr (django_fields e) u ''access_token'' of
             None \<Rightarrow> (Inl AttributeError, st', sess)
           | Some a \<Rightarrow>
               (let s1 = session_set ''ACCESS_TOKEN'' a sess
                in case getattr (django_fields e) u ''id_token'' of
                     None \<Rightarrow> (Inl AttributeError, st', s1)
                   | Some i \<Rightarrow>
                       (let s2 = session_set ''ID_TOKEN'' i s1
                        in case getattr (django_fields e) u ''refresh_token'' of
                             None \<Rightarrow> (Inl AttributeError, st', s2)
                           | Some r \<Rightarrow>
                               (Inr (Some u), st',
                                session_save (session_set ''REFRESH_TOKEN'' r s2)))))
      | (r, st') \<Rightarrow> (r, st', sess))"



section \<open>The views\<close>

datatype http = HandleNoPermission | HttpResponseRedirect string | ViewResponse

record request =
  is_authenticated :: bool
  r_session :: session

text \<open>
  views/profile.py, lines 22-28: \<open>super_dispatch\<close> is what the rest of the dispatch
  chain answers.
\<close>

definition TokenMixin_dispatch :: "request \<Rightarrow> http \<Rightarrow> http" where
  "TokenMixin_dispatch req super_dispatch =
     (if \<not> truthy (session_get (r_session req) ''REFRESH_TOKEN'') then HandleNoPermission
      else super_dispatch)"

text \<open>
  \<open>ProfileView(LoginRequiredMixin, TokenMixin, GetUserMixin, TemplateView)\<close>: the
  framework's \<open>LoginRequiredMixin\<close> answers \<open>handle_no_permission()\<close> for a user who is
  not authenticated and otherwise goes on to \<open>TokenMixin.dispatch\<close>.
\<close>

definition ProfileView_dispatch :: "request \<Rightarrow> http \<Rightarrow> http" where
  "ProfileView_dispatch req view =
     (if \<not> is_authenticated req then HandleNoPermission else TokenMixin_dispatch req view)"

text \<open>
  \<open>session.delete()\<close> removes what the session store holds; \<open>session.flush()\<close>, which
  the framework's logout calls, also empties the dictionary of the request.
\<close>

definition session_delete :: "session \<Rightarrow> session" where
  "session_delete s = s\<lparr>s_stored := Map.empty\<rparr>"

definition session_flush :: "session \<Rightarrow> session" where
  "session_flush s = session_delete (s\<lparr>s_data := Map.empty\<rparr>)"

text \<open>
  Lines 64-69: \<open>request.session.delete()\<close>, then the framework's \<open>LogoutView.dispatch\<close>,
  which logs the user out (the session is flushed, the user becomes anonymous).
\<close>

definition LogoutView_dispatch :: "request \<Rightarrow> request" where
  "LogoutView_dispatch req =
     \<lparr>is_authenticated = False, r_session = session_flush (session_delete (r_session req))\<rparr>"

text \<open>
  The request that follows: its session dictionary is loaded from the session store;
  \<open>auth\<close> is whether the framework takes its user as authenticated.
\<close>

definition following_request :: "bool \<Rightarrow> request \<Rightarrow> request" where
  "following_request auth req =
     \<lparr>is_authenticated = auth,
      r_session = \<lparr>s_data = s_stored (r_session req), s_stored = s_stored (r_session req)\<rparr>\<rparr>"




section \<open>Example configurations\<close>

text \<open>The field names of the framework's default user model.\<close>

definition django_user_fields :: "string list" where
  "django_user_fields =
     [''logentry'', ''id'', ''password'', ''last_login'', ''is_superuser'', ''username'',
      ''first_name'', ''last_name'', ''email'', ''is_staff'', ''is_active'', ''date_joined'',
      ''groups'', ''user_permissions'']"

text \<open>\<open>COGNITO_ATTR_MAPPING\<close> of webapp/settings.py.\<close>

definition webapp_attr_mapping :: strdict where
  "webapp_attr_mapping =
     [(''email'', ''email''), (''given_name'', ''first_name''), (''family_name'', ''last_name''),
      (''custom:api_key'', ''api_key''), (''custom:api_key_id'', ''api_key_id'')]"

text \<open>An environment with the default user model and the helper as the spec describes it.\<close>

definition example_env :: "strdict option \<Rightarrow> bool option \<Rightarrow> env" where
  "example_env mapping flag =
     \<lparr>settings = \<lparr>COGNITO_ATTR_MAPPING = mapping, COGNITO_CREATE_UNKNOWN_USERS = flag\<rparr>,
      django_fields = django_user_fields,
      utils_cognito_to_dict = cognito_to_dict,
      utils_get_cognito = (\<lambda>s. Inr ())\<rparr>"

text \<open>A provider whose every call raises \<open>x\<close>.\<close>

definition failing_provider :: "exn \<Rightarrow> provider" where
  "failing_provider x =
     \<lparr>cognito_authenticate = (\<lambda>u pw. Inl x),
      cognito_get_user = (\<lambda>u t. Inl x),
      cognito_register = (\<lambda>u pw a. Inl x),
      cognito_confirm_sign_up = (\<lambda>c u. Inl x),
      cognito_update_profile = (\<lambda>d m. Inl x)\<rparr>"

text \<open>A provider that accepts every credential pair with the tokens \<open>t\<close> and reports the
  attribute list \<open>attribute_list\<close>.\<close>

definition accepting_provider :: "tokens \<Rightarrow> attribute list \<Rightarrow> provider" where
  "accepting_provider t attribute_list =
     \<lparr>cognito_authenticate = (\<lambda>u pw. Inr t),
      cognito_get_user = (\<lambda>u t'. Inr attribute_list),
      cognito_register = (\<lambda>u pw a. Inr DAList.empty),
      cognito_confirm_sign_up = (\<lambda>c u. Inr ()),
      cognito_update_profile = (\<lambda>d m. Inr ())\<rparr>"

definition example_tokens :: tokens where
  "example_tokens =
     \<lparr>access_token = Str ''acc'', id_token = Str ''idt'', refresh_token = Str ''ref''\<rparr>"

definition not_authorized :: exn where
  "not_authorized = ClientError [(''Error'', [(''Code'', ''NotAuthorizedException'')])]"

definition throttled :: exn where
  "throttled = ClientError [(''Error'', [(''Code'', ''TooManyRequestsException'')])]"

definition example_attributes :: "attribute list" where
  "example_attributes =
     [(''email'', Str ''a@x.com''), (''given_name'', Str ''A''), (''family_name'', Str ''B'')]"

text \<open>A user table with one record, which has a column that no provider attribute maps to.\<close>

definition example_store :: store where
  "example_store =
     [''alice'' \<mapsto> [''email'' \<mapsto> Str ''old@x.com'', ''is_staff'' \<mapsto> Str ''True'']]"

text \<open>The attributes of a user of the web application, who holds an API key.\<close>

definition webapp_attributes :: "attribute list" where
  "webapp_attributes = example_attributes @ [(''custom:api_key'', Str ''k1'')]"

text \<open>A provider attribute that no mapping names.\<close>

definition profile_attributes :: "attribute list" where
  "profile_attributes = example_attributes @ [(''sub'', Str ''u-1'')]"

definition empty_session :: session where
  "empty_session = \<lparr>s_data = Map.empty, s_stored = Map.empty\<rparr>"


definition logged_in_request :: request where
  "logged_in_request =
     \<lparr>is_authenticated = True,
      r_session =
        \<lparr>s_data = [''ACCESS_TOKEN'' \<mapsto> Str ''acc'', ''ID_TOKEN'' \<mapsto> Str ''idt'',
                   ''REFRESH_TOKEN'' \<mapsto> Str ''ref''],
         s_stored = [''ACCESS_TOKEN'' \<mapsto> Str ''acc'', ''ID_TOKEN'' \<mapsto> Str ''idt'',
                     ''REFRESH_TOKEN'' \<mapsto> Str ''ref'']\<rparr>\<rparr>"



text \<open>A user table with two records.\<close>

definition two_user_store :: store where
  "two_user_store =
     [''alice'' \<mapsto> [''email'' \<mapsto> Str ''old@x.com''], ''bob'' \<mapsto> [''email'' \<mapsto> Str ''bob@x.com'']]"

text \<open>
  A configured mapping that sends the provider's \<open>preferred_username\<close> to the \<open>username\<close>
  field, and one that does not name \<open>email\<close>.
\<close>

definition username_mapping :: strdict where
  "username_mapping = [(''preferred_username'', ''username''), (''email'', ''email'')]"


section \<open>The attribute mapper of the specification\<close>

text \<open>
  This definition follows the words of the specification, not the code: the mapped
  fields are the values of the provider keys present in the mapping, under their local
  field names; the extra fields are the leftover keys, which are not present in the
  mapping, with their raw values. It is compared with \<open>attribute_mapper\<close> below.
\<close>

definition spec_attribute_mapper :: "attribute list \<Rightarrow> strdict \<Rightarrow> row \<times> row" where
  "spec_attribute_mapper attribute_list mapping =
     (map_of (rev (map (\<lambda>(name, v). (rename mapping name, v))
                 (filter (\<lambda>(name, v). map_of mapping name \<noteq> None) attribute_list))),
      map_of (rev (filter (\<lambda>(name, v). map_of mapping name = None) attribute_list)))"

section \<open>The loops over dictionaries\<close>

text \<open>The split loop of lines 31-34, run over a list of items with unique keys.\<close>

lemma fold_split_step:
  "distinct (map fst xs) \<Longrightarrow>
   DAList.lookup (fst (fold (split_step fs) xs (m, x))) =
     (\<lambda>k. if k \<in> fst ` set xs \<and> k \<notin> set fs then None else DAList.lookup m k) \<and>
   DAList.lookup (snd (fold (split_step fs) xs (m, x))) =
     (\<lambda>k. if k \<in> fst ` set xs \<and> k \<notin> set fs
          then Some (case DAList.lookup m k of Some v \<Rightarrow> v | None \<Rightarrow> PyNone)
          else DAList.lookup x k)"
proof (induction xs arbitrary: m x)
  case Nil
  then show ?case by simp
next
  case (Cons a xs)
  obtain k v where a: "a = (k, v)" by (cases a)
  from Cons.prems have d: "distinct (map fst xs)" and k: "k \<notin> fst ` set xs"
    by (auto simp: a)
  show ?case
  proof (cases "k \<in> set fs")
    case True
    then have "fold (split_step fs) (a # xs) (m, x) = fold (split_step fs) xs (m, x)"
      by (simp add: a split_step_def)
    with Cons.IH [OF d, of m x] True show ?thesis
      by (auto simp: a fun_eq_iff)
  next
    case False
    then have "fold (split_step fs) (a # xs) (m, x) =
        fold (split_step fs) xs
          (DAList.delete k m,
           DAList.update k (case DAList.lookup m k of Some v \<Rightarrow> v | None \<Rightarrow> PyNone) x)"
      by (simp add: a split_step_def pop_def)
    with Cons.IH [OF d, of "DAList.delete k m"
        "DAList.update k (case DAList.lookup m k of Some v \<Rightarrow> v | None \<Rightarrow> PyNone) x"] False k
    show ?thesis
      by (auto simp: a fun_eq_iff DAList.lookup_update)
  qed
qed

lemma keys_lookup: "fst ` set (DAList.impl_of d) = dom (DAList.lookup d)"
  by (simp add: DAList.lookup.rep_eq dom_map_of_conv_image_fst)

text \<open>The attribute mapper splits the dictionary of the helper by the fields of the user model.\<close>

lemma attribute_mapper_lookup:
  assumes "attribute_mapper e attribute_list = (user_attrs, extra_attrs)"
  shows "DAList.lookup user_attrs =
           DAList.lookup (utils_cognito_to_dict e attribute_list (CognitoUser_COGNITO_ATTR_MAPPING e))
             |` set (django_fields e)"
    and "DAList.lookup extra_attrs =
           DAList.lookup (utils_cognito_to_dict e attribute_list (CognitoUser_COGNITO_ATTR_MAPPING e))
             |` (- set (django_fields e))"
proof -
  let ?d = "utils_cognito_to_dict e attribute_list (CognitoUser_COGNITO_ATTR_MAPPING e)"
  have f: "fold (split_step (django_fields e)) (DAList.impl_of ?d) (?d, DAList.empty)
             = (user_attrs, extra_attrs)"
    using assms by (simp add: attribute_mapper_def Let_def)
  note s = fold_split_step [of "DAList.impl_of ?d" "django_fields e" ?d DAList.empty, simplified f]
  show "DAList.lookup user_attrs = DAList.lookup ?d |` set (django_fields e)"
    using s by (auto simp: fun_eq_iff restrict_map_def keys_lookup domIff)
  show "DAList.lookup extra_attrs = DAList.lookup ?d |` (- set (django_fields e))"
    using s by (auto simp: fun_eq_iff restrict_map_def keys_lookup domIff split: option.splits)
qed

lemma attribute_mapper_dom:
  assumes "attribute_mapper e attribute_list = (user_attrs, extra_attrs)"
  shows "dom (DAList.lookup user_attrs) \<subseteq> set (django_fields e)"
    and "dom (DAList.lookup extra_attrs) \<inter> set (django_fields e) = {}"
  using attribute_mapper_lookup [OF assms]
  by (auto simp: restrict_map_def split: if_splits)

lemma attribute_mapper_collapse:
  "attribute_mapper e attribute_list =
     (fst (attribute_mapper e attribute_list), snd (attribute_mapper e attribute_list))"
  by simp

text \<open>The \<open>setattr\<close> loops.\<close>

lemma fold_setattr:
  "distinct (map fst xs) \<Longrightarrow>
   fold (\<lambda>(k, v). setattr fs k v) xs u =
     \<lparr>u_username = (if ''username'' \<in> set fs
                     then (case map_of xs ''username'' of Some v \<Rightarrow> v | None \<Rightarrow> u_username u)
                     else u_username u),
      u_fields = u_fields u ++ (map_of xs |` (set fs - {''username''})),
      u_attrs = u_attrs u ++ (map_of xs |` (- set fs))\<rparr>"
proof (induction xs arbitrary: u)
  case Nil
  then show ?case by simp
next
  case (Cons a xs)
  obtain k v where a: "a = (k, v)" by (cases a)
  from Cons.prems have d: "distinct (map fst xs)" and k: "map_of xs k = None"
    by (auto simp: a map_of_eq_None_iff)
  show ?case
    unfolding a fold_Cons comp_apply prod.case Cons.IH [OF d]
    using k
    by (auto simp: setattr_def fun_eq_iff map_add_def restrict_map_def split: option.splits)
qed

lemma setattrs_eq:
  "setattrs fs d u =
     \<lparr>u_username = (if ''username'' \<in> set fs
                     then (case DAList.lookup d ''username'' of Some v \<Rightarrow> v | None \<Rightarrow> u_username u)
                     else u_username u),
      u_fields = u_fields u ++ (DAList.lookup d |` (set fs - {''username''})),
      u_attrs = u_attrs u ++ (DAList.lookup d |` (- set fs))\<rparr>"
  unfolding setattrs_def DAList.lookup.rep_eq
  by (rule fold_setattr) simp

lemma setattrs_fields:
  assumes "dom (DAList.lookup d) \<subseteq> set fs"
  shows "setattrs fs d u =
     \<lparr>u_username = (case DAList.lookup d ''username'' of Some v \<Rightarrow> v | None \<Rightarrow> u_username u),
      u_fields = u_fields u ++ (DAList.lookup d)(''username'' := None),
      u_attrs = u_attrs u\<rparr>"
proof -
  have p: "DAList.lookup d x = None" if "x \<notin> set fs" for x
    using assms that by (metis domIff subsetD)
  have 1: "DAList.lookup d |` (- set fs) = Map.empty"
    by (auto simp: restrict_map_def fun_eq_iff p)
  have 2: "DAList.lookup d |` (set fs - {''username''}) = (DAList.lookup d)(''username'' := None)"
    by (auto simp: restrict_map_def fun_eq_iff p)
  have 3: "''username'' \<notin> set fs \<Longrightarrow> DAList.lookup d ''username'' = None"
    by (simp add: p)
  show ?thesis
    by (auto simp: setattrs_eq 1 2 3)
qed

lemma setattrs_extra:
  assumes "dom (DAList.lookup d) \<inter> set fs = {}"
  shows "setattrs fs d u = u\<lparr>u_attrs := u_attrs u ++ DAList.lookup d\<rparr>"
proof -
  have p: "DAList.lookup d x = None" if "x \<in> set fs" for x
    using assms that by (metis disjoint_iff domIff)
  have 1: "DAList.lookup d |` (- set fs) = DAList.lookup d"
    by (auto simp: restrict_map_def fun_eq_iff p)
  have 2: "DAList.lookup d |` (set fs - {''username''}) = Map.empty"
    by (auto simp: restrict_map_def fun_eq_iff p)
  have 3: "''username'' \<in> set fs \<Longrightarrow> DAList.lookup d ''username'' = None"
    by (simp add: p)
  show ?thesis
    by (auto simp: setattrs_eq 1 2 3)
qed

text \<open>The dictionary that \<open>cognito_to_dict\<close> builds: the last value of a name wins.\<close>

lemma lookup_fold_update:
  "DAList.lookup (fold (\<lambda>(name, v) d. DAList.update (f name) v d) xs d) =
     DAList.lookup d ++ map_of (rev (map (\<lambda>(name, v). (f name, v)) xs))"
proof (induction xs arbitrary: d)
  case Nil
  then show ?case by simp
next
  case (Cons a xs)
  obtain name v where a: "a = (name, v)" by (cases a)
  show ?case
    by (auto simp: a Cons.IH fun_eq_iff map_add_def DAList.lookup_update split: option.splits)
qed

lemma lookup_cognito_to_dict:
  "DAList.lookup (cognito_to_dict attribute_list mapping) =
     map_of (rev (map (\<lambda>(name, v). (rename mapping name, v)) attribute_list))"
  by (simp add: cognito_to_dict_def lookup_fold_update fun_eq_iff map_add_def split: option.splits)

lemma restrict_map_of_keys: "fst ` set xs \<subseteq> A \<Longrightarrow> map_of xs |` A = map_of xs"
  by (auto simp: restrict_map_def fun_eq_iff) (metis map_of_eq_None_iff subsetD)

lemma restrict_map_of_no_keys: "fst ` set xs \<inter> A = {} \<Longrightarrow> map_of xs |` A = Map.empty"
  by (auto simp: restrict_map_def fun_eq_iff) (metis map_of_eq_None_iff disjoint_iff)

lemma restrict_map_of_filter: "map_of xs |` A = map_of (filter (\<lambda>x. fst x \<in> A) xs)"
  using map_of_filter [of "\<lambda>k. k \<in> A" xs] by simp

lemma restrict_renamed:
  assumes "\<forall>(name, v) \<in> set xs. (f name \<in> A) = P name"
  shows "map_of (rev (map (\<lambda>(name, v). (f name, v)) xs)) |` A =
         map_of (rev (map (\<lambda>(name, v). (f name, v)) (filter (\<lambda>(name, v). P name) xs)))"
proof -
  have "filter ((\<lambda>x. fst x \<in> A) \<circ> (\<lambda>(name, v). (f name, v))) xs = filter (\<lambda>(name, v). P name) xs"
    using assms by (intro filter_cong) auto
  then show ?thesis
    by (simp add: restrict_map_of_filter rev_filter [symmetric] filter_map)
qed

lemma map_rename_unmapped:
  "map (\<lambda>(name, v). (rename mapping name, v))
     (filter (\<lambda>(name, v). map_of mapping name = None) xs) =
   filter (\<lambda>(name, v). map_of mapping name = None) xs"
  by (induction xs) (auto simp: rename_def)

section \<open>What get_user_obj and authenticate return\<close>

lemma get_user_obj_success:
  assumes m: "attribute_mapper e attribute_list = (user_attrs, extra_attrs)"
      and g: "get_user_obj e uname attribute_list st = (Inr (Some u), st')"
  shows "\<exists>n. u_username u = Str n \<and>
           (case DAList.lookup user_attrs ''username'' of Some v \<Rightarrow> v | None \<Rightarrow> Str uname) = Str n \<and>
           u_fields u = (case st uname of None \<Rightarrow> Map.empty | Some r \<Rightarrow> r)
                          ++ (DAList.lookup user_attrs)(''username'' := None) \<and>
           u_attrs u = DAList.lookup extra_attrs \<and>
           st' = (st(uname := None))(n \<mapsto> u_fields u) \<and>
           (create_unknown_users e \<or> st uname \<noteq> None)"
proof -
  note d = attribute_mapper_dom [OF m]
  show ?thesis
    using g
    by (auto simp: get_user_obj_def m update_or_create_def objects_get_def save_def create_def
          setattrs_fields [OF d(1)] setattrs_extra [OF d(2)] Let_def
          split: if_splits option.splits sum.splits pyval.splits)
qed

lemma get_user_obj_create_named:
  assumes m: "attribute_mapper e attribute_list = (user_attrs, extra_attrs)"
      and c: "create_unknown_users e"
      and s: "st uname = None"
      and n: "(case DAList.lookup user_attrs ''username'' of Some v \<Rightarrow> v | None \<Rightarrow> Str uname) = Str n"
      and f: "st n = None"
  shows "get_user_obj e uname attribute_list st =
           (Inr (Some \<lparr>u_username = Str n,
                        u_fields = (DAList.lookup user_attrs)(''username'' := None),
                        u_attrs = DAList.lookup extra_attrs\<rparr>),
            st(n \<mapsto> (DAList.lookup user_attrs)(''username'' := None)))"
proof -
  note d = attribute_mapper_dom [OF m]
  show ?thesis
    using n f
    by (auto simp: get_user_obj_def m c s update_or_create_def objects_get_def create_def
          setattrs_fields [OF d(1)] setattrs_extra [OF d(2)] Let_def
          split: option.splits pyval.splits)
qed

lemma get_user_obj_create:
  assumes m: "attribute_mapper e attribute_list = (user_attrs, extra_attrs)"
      and c: "create_unknown_users e"
      and s: "st uname = None"
      and n: "DAList.lookup user_attrs ''username'' = None"
  shows "get_user_obj e uname attribute_list st =
           (Inr (Some \<lparr>u_username = Str uname, u_fields = DAList.lookup user_attrs,
                        u_attrs = DAList.lookup extra_attrs\<rparr>),
            st(uname \<mapsto> DAList.lookup user_attrs))"
proof -
  note d = attribute_mapper_dom [OF m]
  have i: "(DAList.lookup user_attrs)(''username'' := None) = DAList.lookup user_attrs"
    using n by (auto simp: fun_eq_iff)
  show ?thesis
    by (simp add: get_user_obj_def m c s n i update_or_create_def objects_get_def create_def
          setattrs_fields [OF d(1)] setattrs_extra [OF d(2)])
qed

lemma get_user_obj_existing:
  assumes m: "attribute_mapper e attribute_list = (user_attrs, extra_attrs)"
      and s: "st uname = Some r"
      and n: "DAList.lookup user_attrs ''username'' = None"
  shows "get_user_obj e uname attribute_list st =
           (Inr (Some \<lparr>u_username = Str uname, u_fields = r ++ DAList.lookup user_attrs,
                        u_attrs = DAList.lookup extra_attrs\<rparr>),
            st(uname \<mapsto> r ++ DAList.lookup user_attrs))"
proof -
  note d = attribute_mapper_dom [OF m]
  have i: "(DAList.lookup user_attrs)(''username'' := None) = DAList.lookup user_attrs"
    using n by (auto simp: fun_eq_iff)
  show ?thesis
    by (auto simp: get_user_obj_def m s n i update_or_create_def objects_get_def save_def
          setattrs_fields [OF d(1)] setattrs_extra [OF d(2)] Let_def)
qed

lemma get_user_obj_off_missing:
  "\<not> create_unknown_users e \<Longrightarrow> st uname = None \<Longrightarrow>
   get_user_obj e uname attribute_list st = (Inr None, st)"
  by (simp add: get_user_obj_def objects_get_def split: prod.splits)

lemma authenticate_raise:
  "cognito_authenticate p uname password = Inl x \<Longrightarrow>
   authenticate e p uname password st =
     ((if caught x then handle_error_response x else Inl x), st)"
  by (simp add: authenticate_def)

lemma error_code_caught: "error_code x = Inr c \<Longrightarrow> caught x"
  by (cases x) (auto simp: error_code_def)

lemma handle_error_response_code:
  "error_code x = Inr c \<Longrightarrow>
   handle_error_response x =
     (if c = UNAUTHORIZED_ERROR_CODE \<or> c = USER_NOT_FOUND_ERROR_CODE then Inr None else Inl x)"
  by (simp add: handle_error_response_def)

lemma authenticate_accepted:
  assumes "cognito_authenticate p uname password = Inr t"
      and "cognito_get_user p uname t = Inr attribute_list"
      and "get_user_obj e uname attribute_list st = (Inr (Some u0), st')"
  shows "authenticate e p uname password st =
           (Inr (Some (attach_tokens (django_fields e) t u0)), st')"
  using assms by (simp add: authenticate_def)

lemma authenticate_success:
  assumes "cognito_authenticate p uname password = Inr t"
      and "cognito_get_user p uname t = Inr attribute_list"
      and "authenticate e p uname password st = (Inr (Some u), st')"
  shows "\<exists>u0. get_user_obj e uname attribute_list st = (Inr (Some u0), st') \<and>
              u = attach_tokens (django_fields e) t u0"
  using assms
  by (auto simp: authenticate_def split: prod.splits sum.splits option.splits)

section \<open>Tokens, the session binder and the other call sites\<close>


lemma getattr_attach_tokens:
  "getattr fs (attach_tokens fs t u) ''access_token'' = Some (access_token t)"
  "getattr fs (attach_tokens fs t u) ''id_token'' = Some (id_token t)"
  "getattr fs (attach_tokens fs t u) ''refresh_token'' = Some (refresh_token t)"
  by (simp_all add: attach_tokens_def setattr_def getattr_def)

lemma handle_error_response_not_Some: "handle_error_response x \<noteq> Inr (Some u)"
  by (simp add: handle_error_response_def split: sum.splits)

lemma authenticate_Some:
  assumes "authenticate e p uname password st = (Inr (Some u), st')"
  shows "\<exists>t u0. cognito_authenticate p uname password = Inr t \<and>
                u = attach_tokens (django_fields e) t u0"
  using assms
  by (auto simp: authenticate_def handle_error_response_not_Some
        split: prod.splits sum.splits option.splits if_splits)

lemma CognitoBackend_authenticate_cases:
  "CognitoBackend_authenticate e p sess uname password st =
     (case authenticate e p uname password st of
        (Inr (Some u), st') \<Rightarrow>
          (case cognito_authenticate p uname password of
             Inr t \<Rightarrow>
               (Inr (Some u), st',
                session_save (session_set ''REFRESH_TOKEN'' (refresh_token t)
                  (session_set ''ID_TOKEN'' (id_token t)
                    (session_set ''ACCESS_TOKEN'' (access_token t) sess))))
           | Inl x \<Rightarrow> (Inl x, st', sess))
      | (r, st') \<Rightarrow> (r, st', sess))"
proof (cases "authenticate e p uname password st")
  case (Pair r st')
  show ?thesis
  proof (cases "\<exists>u. r = Inr (Some u)")
    case True
    then obtain u where r: "r = Inr (Some u)" by blast
    from authenticate_Some [OF Pair [unfolded r]] obtain t u0
      where "cognito_authenticate p uname password = Inr t"
        and "u = attach_tokens (django_fields e) t u0"
      by blast
    then show ?thesis
      by (simp add: CognitoBackend_authenticate_def Pair r getattr_attach_tokens)
  next
    case False
    then show ?thesis
      by (auto simp: CognitoBackend_authenticate_def Pair split: sum.splits option.splits)
  qed
qed

lemma CognitoBackend_authenticate_accepted:
  assumes "authenticate e p uname password st =
             (Inr (Some (attach_tokens (django_fields e) t u0)), st')"
  shows "CognitoBackend_authenticate e p sess uname password st =
           (Inr (Some (attach_tokens (django_fields e) t u0)), st',
            session_save (session_set ''REFRESH_TOKEN'' (refresh_token t)
              (session_set ''ID_TOKEN'' (id_token t)
                (session_set ''ACCESS_TOKEN'' (access_token t) sess))))"
  by (simp add: CognitoBackend_authenticate_def assms getattr_attach_tokens)




section \<open>The calls as functions of their inputs\<close>

text \<open>
  What \<open>get_user_obj\<close> and an accepted \<open>authenticate\<close> return and write, for every store
  and every output of the attribute mapper.
\<close>

lemma get_user_obj_total:
  assumes m: "attribute_mapper e attribute_list = (user_attrs, extra_attrs)"
  shows "get_user_obj e uname attribute_list st =
    (if \<not> create_unknown_users e \<and> st uname = None then (Inr None, st)
     else (case (case DAList.lookup user_attrs ''username'' of Some v \<Rightarrow> v | None \<Rightarrow> Str uname) of
             PyNone \<Rightarrow> (Inl IntegrityError, st)
           | Str n \<Rightarrow>
               if n \<noteq> uname \<and> st n \<noteq> None then (Inl IntegrityError, st)
               else (Inr (Some \<lparr>u_username = Str n,
                       u_fields = (case st uname of None \<Rightarrow> Map.empty | Some r \<Rightarrow> r)
                                    ++ (DAList.lookup user_attrs)(''username'' := None),
                       u_attrs = DAList.lookup extra_attrs\<rparr>),
                     (st(uname := None))
                       (n \<mapsto> (case st uname of None \<Rightarrow> Map.empty | Some r \<Rightarrow> r)
                                    ++ (DAList.lookup user_attrs)(''username'' := None)))))"
proof -
  note d = attribute_mapper_dom [OF m]
  show ?thesis
    by (auto simp: get_user_obj_def m update_or_create_def objects_get_def save_def create_def
          setattrs_fields [OF d(1)] setattrs_extra [OF d(2)] Let_def
          split: option.splits pyval.splits)
qed

lemma authenticate_total:
  assumes "cognito_authenticate p uname password = Inr t"
      and "cognito_get_user p uname t = Inr attribute_list"
      and "attribute_mapper e attribute_list = (user_attrs, extra_attrs)"
  shows "authenticate e p uname password st =
    (if \<not> create_unknown_users e \<and> st uname = None then (Inr None, st)
     else (case (case DAList.lookup user_attrs ''username'' of Some v \<Rightarrow> v | None \<Rightarrow> Str uname) of
             PyNone \<Rightarrow> (Inl IntegrityError, st)
           | Str n \<Rightarrow>
               if n \<noteq> uname \<and> st n \<noteq> None then (Inl IntegrityError, st)
               else (Inr (Some (attach_tokens (django_fields e) t
                       \<lparr>u_username = Str n,
                        u_fields = (case st uname of None \<Rightarrow> Map.empty | Some r \<Rightarrow> r)
                                     ++ (DAList.lookup user_attrs)(''username'' := None),
                        u_attrs = DAList.lookup extra_attrs\<rparr>)),
                     (st(uname := None))
                       (n \<mapsto> (case st uname of None \<Rightarrow> Map.empty | Some r \<Rightarrow> r)
                                    ++ (DAList.lookup user_attrs)(''username'' := None)))))"
  by (simp add: authenticate_def assms(1,2) get_user_obj_total [OF assms(3)]
        split: pyval.splits option.splits)






text \<open>The error handler on each shape of exception.\<close>

lemma handle_error_response_table:
  "handle_error_response Boto3Error = Inl AttributeError"
  "map_of r ''Error'' = None \<Longrightarrow> handle_error_response (ClientError r) = Inl (KeyError ''Error'')"
  "map_of r ''Error'' = Some d \<Longrightarrow> map_of d ''Code'' = None \<Longrightarrow>
     handle_error_response (ClientError r) = Inl (KeyError ''Code'')"
  "map_of r ''Error'' = Some d \<Longrightarrow> map_of d ''Code'' = Some c \<Longrightarrow>
     handle_error_response (ClientError r) =
       (if c = ''NotAuthorizedException'' \<or> c = ''UserNotFoundException'' then Inr None
        else Inl (ClientError r))"
  by (simp_all add: handle_error_response_def error_code_def UNAUTHORIZED_ERROR_CODE_def
        USER_NOT_FOUND_ERROR_CODE_def)

lemma caught_iff: "caught x = (x = Boto3Error \<or> (\<exists>r. x = ClientError r))"
  by (cases x) simp_all

lemma handle_error_response_None:
  "handle_error_response error = (Inr None :: exn + 'a option) \<Longrightarrow>
   \<exists>r d c. error = ClientError r \<and> map_of r ''Error'' = Some d \<and> map_of d ''Code'' = Some c \<and>
           (c = ''NotAuthorizedException'' \<or> c = ''UserNotFoundException'')"
  by (cases error)
     (auto simp: handle_error_response_def error_code_def UNAUTHORIZED_ERROR_CODE_def
        USER_NOT_FOUND_ERROR_CODE_def split: option.splits if_splits)




section \<open>The example configurations, evaluated\<close>

lemma accepting_provider_simps:
  "cognito_authenticate (accepting_provider t attribute_list) uname password = Inr t"
  "cognito_get_user (accepting_provider t attribute_list) uname t' = Inr attribute_list"
  by (simp_all add: accepting_provider_def)

lemma example_env_simps:
  "django_fields (example_env mapping flag) = django_user_fields"
  "utils_cognito_to_dict (example_env mapping flag) = cognito_to_dict"
  "CognitoUser_COGNITO_ATTR_MAPPING (example_env (Some m) flag) = m"
  "CognitoUser_COGNITO_ATTR_MAPPING (example_env None flag) = default_attr_mapping"
  "create_unknown_users (example_env mapping None)"
  "create_unknown_users (example_env mapping (Some b)) = b"
  by (simp_all add: example_env_def CognitoUser_COGNITO_ATTR_MAPPING_def create_unknown_users_def)

lemma example_user_attrs:
  "DAList.lookup (fst (attribute_mapper (example_env None flag) example_attributes)) =
     [''email'' \<mapsto> Str ''a@x.com'', ''first_name'' \<mapsto> Str ''A'', ''last_name'' \<mapsto> Str ''B'']"
  unfolding attribute_mapper_lookup(1) [OF attribute_mapper_collapse]
  by (simp add: example_env_def CognitoUser_COGNITO_ATTR_MAPPING_def example_attributes_def
        lookup_cognito_to_dict
        rename_def default_attr_mapping_def django_user_fields_def restrict_map_of_keys)

lemma failing_provider_simps:
  "cognito_authenticate (failing_provider x) uname password = Inl x"
  "cognito_register (failing_provider x) uname password a = Inl x"
  "cognito_confirm_sign_up (failing_provider x) c uname = Inl x"
  "cognito_update_profile (failing_provider x) d m = Inl x"
  by (simp_all add: failing_provider_def)

lemma example_error_codes:
  "error_code not_authorized = Inr UNAUTHORIZED_ERROR_CODE"
  "error_code throttled = Inr ''TooManyRequestsException''"
  "''TooManyRequestsException'' \<noteq> UNAUTHORIZED_ERROR_CODE"
  "''TooManyRequestsException'' \<noteq> USER_NOT_FOUND_ERROR_CODE"
  by (simp_all add: error_code_def not_authorized_def throttled_def UNAUTHORIZED_ERROR_CODE_def
        USER_NOT_FOUND_ERROR_CODE_def)

lemma webapp_user_attrs:
  "DAList.lookup (fst (attribute_mapper (example_env (Some webapp_attr_mapping) flag) webapp_attributes)) =
     [''email'' \<mapsto> Str ''a@x.com'', ''first_name'' \<mapsto> Str ''A'', ''last_name'' \<mapsto> Str ''B'']"
  unfolding attribute_mapper_lookup(1) [OF attribute_mapper_collapse]
  by (simp add: example_env_simps webapp_attributes_def example_attributes_def
        lookup_cognito_to_dict rename_def webapp_attr_mapping_def django_user_fields_def
        restrict_map_of_filter)

lemma webapp_extra_attrs:
  "DAList.lookup (snd (attribute_mapper (example_env (Some webapp_attr_mapping) flag) webapp_attributes)) =
     [''api_key'' \<mapsto> Str ''k1'']"
  unfolding attribute_mapper_lookup(2) [OF attribute_mapper_collapse]
  by (simp add: example_env_simps webapp_attributes_def example_attributes_def
        lookup_cognito_to_dict rename_def webapp_attr_mapping_def django_user_fields_def
        restrict_map_of_filter)

lemma example_authenticate:
  "authenticate (example_env None None) (accepting_provider t example_attributes)
       ''alice'' ''pw'' Map.empty =
     (Inr (Some (attach_tokens (django_fields (example_env None None)) t
         \<lparr>u_username = Str ''alice'',
          u_fields = DAList.lookup (fst (attribute_mapper (example_env None None) example_attributes)),
          u_attrs = DAList.lookup (snd (attribute_mapper (example_env None None) example_attributes))\<rparr>)),
      [''alice'' \<mapsto> DAList.lookup (fst (attribute_mapper (example_env None None) example_attributes))])"
proof -
  let ?e = "example_env None None"
  have m: "attribute_mapper ?e example_attributes =
             (fst (attribute_mapper ?e example_attributes), snd (attribute_mapper ?e example_attributes))"
    by simp
  have s: "Map.empty ''alice'' = (None :: row option)"
    by simp
  have n: "DAList.lookup (fst (attribute_mapper ?e example_attributes)) ''username'' = None"
    by (simp add: example_user_attrs)
  note g = get_user_obj_create [where st = Map.empty and uname = "''alice''",
      OF m example_env_simps(5) s n]
  show ?thesis
    by (rule authenticate_accepted [OF accepting_provider_simps(1) accepting_provider_simps(2) g])
qed


lemma username_user_attrs:
  "DAList.lookup (fst (attribute_mapper (example_env (Some username_mapping) flag)
                         [(''preferred_username'', Str n), (''email'', Str m)])) =
     [''username'' \<mapsto> Str n, ''email'' \<mapsto> Str m]"
  unfolding attribute_mapper_lookup(1) [OF attribute_mapper_collapse]
  by (simp add: example_env_simps lookup_cognito_to_dict rename_def username_mapping_def
        django_user_fields_def restrict_map_of_filter)




section \<open>Error handling of the backend\<close>

text \<open>
  C10: \<open>handle_error_response\<close> returns \<open>None\<close> only for a \<open>ClientError\<close> whose response
  holds one of the codes \<open>NotAuthorizedException\<close> and \<open>UserNotFoundException\<close> under
  \<open>['Error']['Code']\<close>. The exceptions that reach it are the caught ones, \<open>Boto3Error\<close>
  and \<open>ClientError\<close>. For a caught exception without such an entry it raises an error
  of its own: \<open>AttributeError\<close> for a \<open>Boto3Error\<close>, which has no response, and
  \<open>KeyError\<close> for a \<open>ClientError\<close> whose response has no \<open>Error\<close> or whose \<open>Error\<close> has
  no \<open>Code\<close>. So it neither returns \<open>None\<close> nor raises the exception it was given. A
  \<open>ClientError\<close> with any other code is raised again.
\<close>

theorem handle_error_response_partial:
  "(handle_error_response error = (Inr None :: exn + 'a option) \<longrightarrow>
      (\<exists>r d c. error = ClientError r \<and> map_of r ''Error'' = Some d \<and> map_of d ''Code'' = Some c \<and>
               (c = ''NotAuthorizedException'' \<or> c = ''UserNotFoundException''))) \<and>
   caught error = (error = Boto3Error \<or> (\<exists>r. error = ClientError r)) \<and>
   handle_error_response Boto3Error = (Inl AttributeError :: exn + 'a option) \<and>
   (map_of r ''Error'' = None \<longrightarrow>
      handle_error_response (ClientError r) = (Inl (KeyError ''Error'') :: exn + 'a option)) \<and>
   (map_of r ''Error'' = Some d \<and> map_of d ''Code'' = None \<longrightarrow>
      handle_error_response (ClientError r) = (Inl (KeyError ''Code'') :: exn + 'a option)) \<and>
   (map_of r ''Error'' = Some d \<and> map_of d ''Code'' = Some c \<longrightarrow>
      handle_error_response (ClientError r) =
        (if c = ''NotAuthorizedException'' \<or> c = ''UserNotFoundException''
         then Inr None else Inl (ClientError r) :: exn + 'a option))"
  using handle_error_response_None [of error, where 'a = 'a] caught_iff [of error]
  by (simp add: handle_error_response_table)

theorem handle_error_response_partial_witness:
  "caught Boto3Error \<and>
   handle_error_response Boto3Error = (Inl AttributeError :: exn + unit option) \<and>
   caught (ClientError []) \<and>
   handle_error_response (ClientError []) = (Inl (KeyError ''Error'') :: exn + unit option) \<and>
   handle_error_response (ClientError [(''ResponseMetadata'', [(''HTTPStatusCode'', ''500'')])])
     = (Inl (KeyError ''Error'') :: exn + unit option) \<and>
   handle_error_response (ClientError [(''Error'', [(''Message'', ''no code'')])])
     = (Inl (KeyError ''Code'') :: exn + unit option) \<and>
   handle_error_response (ClientError [(''Error'', [(''Code'', ''NotAuthorizedException'')])])
     = (Inr None :: exn + unit option) \<and>
   handle_error_response (ClientError [(''Error'', [(''Code'', ''UserNotFoundException'')])])
     = (Inr None :: exn + unit option) \<and>
   handle_error_response (ClientError [(''Error'', [(''Code'', ''TooManyRequestsException'')])])
     = (Inl (ClientError [(''Error'', [(''Code'', ''TooManyRequestsException'')])])
          :: exn + unit option)"
  using handle_error_response_partial [of Boto3Error "[]", where 'a = unit]
        handle_error_response_partial
          [of "ClientError []" "[(''ResponseMetadata'', [(''HTTPStatusCode'', ''500'')])]",
           where 'a = unit]
        handle_error_response_partial
          [of Boto3Error "[(''Error'', [(''Message'', ''no code'')])]"
              "[(''Message'', ''no code'')]", where 'a = unit]
        handle_error_response_partial
          [of Boto3Error "[(''Error'', [(''Code'', ''NotAuthorizedException'')])]"
              "[(''Code'', ''NotAuthorizedException'')]" "''NotAuthorizedException''",
           where 'a = unit]
        handle_error_response_partial
          [of Boto3Error "[(''Error'', [(''Code'', ''UserNotFoundException'')])]"
              "[(''Code'', ''UserNotFoundException'')]" "''UserNotFoundException''",
           where 'a = unit]
        handle_error_response_partial
          [of Boto3Error "[(''Error'', [(''Code'', ''TooManyRequestsException'')])]"
              "[(''Code'', ''TooManyRequestsException'')]" "''TooManyRequestsException''",
           where 'a = unit]
  by simp




section \<open>Provisioning of the local user record\<close>

text \<open>
  C2, as amended: with auto-provisioning enabled (the default) and no local record for the
  username, an authentication that the provider accepts creates exactly one record,
  under that username, whose fields are the mapped fields of the attribute mapper,
  provided the mapper output does not assign the \<open>username\<close> field a value other than
  the username that authenticated. When it does assign another value, no record is
  created under the username that authenticated. The witness is the example of the
  specification: the attributes \<open>email\<close>, \<open>given_name\<close> and \<open>family_name\<close> under the default
  mapping.
\<close>

theorem authenticate_creates_record:
  assumes "create_unknown_users e"
      and "st uname = None"
      and "cognito_authenticate p uname password = Inr t"
      and "cognito_get_user p uname t = Inr attribute_list"
      and "attribute_mapper e attribute_list = (user_attrs, extra_attrs)"
  shows "(DAList.lookup user_attrs ''username'' = None \<or>
          DAList.lookup user_attrs ''username'' = Some (Str uname) \<longrightarrow>
            authenticate e p uname password st =
              (Inr (Some (attach_tokens (django_fields e) t
                            \<lparr>u_username = Str uname,
                             u_fields = (DAList.lookup user_attrs)(''username'' := None),
                             u_attrs = DAList.lookup extra_attrs\<rparr>)),
               st(uname \<mapsto> (DAList.lookup user_attrs)(''username'' := None)))) \<and>
         (DAList.lookup user_attrs ''username'' \<noteq> None \<and>
          DAList.lookup user_attrs ''username'' \<noteq> Some (Str uname) \<longrightarrow>
            snd (authenticate e p uname password st) uname = None)"
  using assms(1,2)
  by (auto simp: authenticate_total [OF assms(3,4,5)] split: pyval.splits option.splits)

theorem authenticate_creates_record_witness:
  "create_unknown_users (example_env None None) \<and>
   authenticate (example_env None None) (accepting_provider example_tokens example_attributes)
       ''alice'' ''pw'' Map.empty =
     (Inr (Some (attach_tokens django_user_fields example_tokens
                   \<lparr>u_username = Str ''alice'',
                    u_fields = [''email'' \<mapsto> Str ''a@x.com'', ''first_name'' \<mapsto> Str ''A'',
                                ''last_name'' \<mapsto> Str ''B''],
                    u_attrs = Map.empty\<rparr>)),
      [''alice'' \<mapsto>
         [''email'' \<mapsto> Str ''a@x.com'', ''first_name'' \<mapsto> Str ''A'', ''last_name'' \<mapsto> Str ''B'']]) \<and>
   snd (authenticate (example_env (Some username_mapping) None)
          (accepting_provider example_tokens
             [(''preferred_username'', Str ''alice''), (''email'', Str ''a@x.com'')])
          ''alice'' ''pw'' Map.empty) =
     [''alice'' \<mapsto> [''email'' \<mapsto> Str ''a@x.com'']] \<and>
   snd (authenticate (example_env (Some username_mapping) None)
          (accepting_provider example_tokens
             [(''preferred_username'', Str ''bob''), (''email'', Str ''a@x.com'')])
          ''alice'' ''pw'' Map.empty) ''alice'' = None"
proof -
  let ?e = "example_env None None"
  let ?p = "accepting_provider example_tokens example_attributes"
  have s: "Map.empty ''alice'' = (None :: row option)"
    by simp
  have x: "DAList.lookup (snd (attribute_mapper ?e example_attributes)) = Map.empty"
    unfolding attribute_mapper_lookup(2) [OF attribute_mapper_collapse]
    by (simp add: example_env_simps example_attributes_def lookup_cognito_to_dict rename_def
          default_attr_mapping_def django_user_fields_def restrict_map_of_filter)
  have i: "[''email'' \<mapsto> Str ''a@x.com'', ''first_name'' \<mapsto> Str ''A'', ''last_name'' \<mapsto> Str ''B'']
             (''username'' := None) =
           [''email'' \<mapsto> Str ''a@x.com'', ''first_name'' \<mapsto> Str ''A'', ''last_name'' \<mapsto> Str ''B'']"
    by (auto simp: fun_eq_iff)
  have 1: "authenticate ?e ?p ''alice'' ''pw'' Map.empty =
     (Inr (Some (attach_tokens django_user_fields example_tokens
                   \<lparr>u_username = Str ''alice'',
                    u_fields = [''email'' \<mapsto> Str ''a@x.com'', ''first_name'' \<mapsto> Str ''A'',
                                ''last_name'' \<mapsto> Str ''B''],
                    u_attrs = Map.empty\<rparr>)),
      [''alice'' \<mapsto>
         [''email'' \<mapsto> Str ''a@x.com'', ''first_name'' \<mapsto> Str ''A'', ''last_name'' \<mapsto> Str ''B'']])"
    using authenticate_creates_record
            [where st = Map.empty and uname = "''alice''" and e = "example_env None None"
               and p = "accepting_provider example_tokens example_attributes"
               and password = "''pw''" and t = example_tokens
               and attribute_list = example_attributes,
             OF example_env_simps(5) s accepting_provider_simps(1) accepting_provider_simps(2)
                attribute_mapper_collapse]
    by (simp add: example_user_attrs x i example_env_simps)
  let ?e2 = "example_env (Some username_mapping) None"
  have j: "[''username'' \<mapsto> Str n, ''email'' \<mapsto> Str ''a@x.com''](''username'' := None) =
           [''email'' \<mapsto> Str ''a@x.com'']" for n
    by (auto simp: fun_eq_iff)
  have 2: "snd (authenticate ?e2
          (accepting_provider example_tokens
             [(''preferred_username'', Str ''alice''), (''email'', Str ''a@x.com'')])
          ''alice'' ''pw'' Map.empty) =
     [''alice'' \<mapsto> [''email'' \<mapsto> Str ''a@x.com'']]"
    using authenticate_creates_record
            [where st = Map.empty and uname = "''alice''"
               and e = "example_env (Some username_mapping) None"
               and p = "accepting_provider example_tokens
                          [(''preferred_username'', Str ''alice''), (''email'', Str ''a@x.com'')]"
               and password = "''pw''" and t = example_tokens
               and attribute_list =
                 "[(''preferred_username'', Str ''alice''), (''email'', Str ''a@x.com'')]",
             OF example_env_simps(5) s accepting_provider_simps(1) accepting_provider_simps(2)
                attribute_mapper_collapse]
    by (simp add: username_user_attrs j)
  have 3: "snd (authenticate ?e2
          (accepting_provider example_tokens
             [(''preferred_username'', Str ''bob''), (''email'', Str ''a@x.com'')])
          ''alice'' ''pw'' Map.empty) ''alice'' = None"
    using authenticate_creates_record
            [where st = Map.empty and uname = "''alice''"
               and e = "example_env (Some username_mapping) None"
               and p = "accepting_provider example_tokens
                          [(''preferred_username'', Str ''bob''), (''email'', Str ''a@x.com'')]"
               and password = "''pw''" and t = example_tokens
               and attribute_list =
                 "[(''preferred_username'', Str ''bob''), (''email'', Str ''a@x.com'')]",
             OF example_env_simps(5) s accepting_provider_simps(1) accepting_provider_simps(2)
                attribute_mapper_collapse]
    by (simp add: username_user_attrs)
  from 1 2 3 show ?thesis
    by (simp add: example_env_simps)
qed

text \<open>
  Without the proviso the claim fails: when the configured mapping sends a provider
  attribute to \<open>username\<close>, the defaults of \<open>update_or_create\<close> override the lookup
  value, and the record is created under the provider's value, not under the username
  that authenticated.
\<close>

theorem authenticate_creates_record_counterexample:
  "create_unknown_users (example_env (Some [(''preferred_username'', ''username'')]) None) \<and>
   (\<exists>u. fst (authenticate (example_env (Some [(''preferred_username'', ''username'')]) None)
              (accepting_provider example_tokens [(''preferred_username'', Str ''bob'')])
              ''alice'' ''pw'' Map.empty) = Inr (Some u)) \<and>
   snd (authenticate (example_env (Some [(''preferred_username'', ''username'')]) None)
          (accepting_provider example_tokens [(''preferred_username'', Str ''bob'')])
          ''alice'' ''pw'' Map.empty) = [''bob'' \<mapsto> Map.empty]"
proof -
  let ?e = "example_env (Some [(''preferred_username'', ''username'')]) None"
  let ?L = "[(''preferred_username'', Str ''bob'')]"
  have ua: "DAList.lookup (fst (attribute_mapper ?e ?L)) = [''username'' \<mapsto> Str ''bob'']"
    unfolding attribute_mapper_lookup(1) [OF attribute_mapper_collapse]
    by (simp add: example_env_simps lookup_cognito_to_dict rename_def django_user_fields_def
          restrict_map_of_keys)
  have g: "get_user_obj ?e ''alice'' ?L Map.empty =
             (Inr (Some \<lparr>u_username = Str ''bob'',
                          u_fields = (DAList.lookup (fst (attribute_mapper ?e ?L)))(''username'' := None),
                          u_attrs = DAList.lookup (snd (attribute_mapper ?e ?L))\<rparr>),
              [''bob'' \<mapsto> (DAList.lookup (fst (attribute_mapper ?e ?L)))(''username'' := None)])"
    by (rule get_user_obj_create_named [OF attribute_mapper_collapse])
       (simp_all add: example_env_simps ua)
  show ?thesis
    unfolding authenticate_accepted [OF accepting_provider_simps(1) accepting_provider_simps(2) g]
    by (simp add: example_env_simps ua)
qed

text \<open>
  C3: with auto-provisioning disabled and no local record for the username, a login
  that the provider accepts yields \<open>None\<close> (or the exception of the attribute fetch),
  and the user store is left as it was: no record is created.
\<close>

theorem authenticate_without_provisioning:
  assumes "\<not> create_unknown_users e"
      and "st uname = None"
      and "cognito_authenticate p uname password = Inr t"
  shows "authenticate e p uname password st =
           ((case cognito_get_user p uname t of Inl x \<Rightarrow> Inl x | Inr attribute_list \<Rightarrow> Inr None), st)"
  using assms
  by (simp add: authenticate_def get_user_obj_off_missing split: sum.splits)

theorem authenticate_without_provisioning_witness:
  "\<not> create_unknown_users (example_env None (Some False)) \<and>
   cognito_authenticate (accepting_provider example_tokens example_attributes) ''alice'' ''pw''
     = Inr example_tokens \<and>
   authenticate (example_env None (Some False))
       (accepting_provider example_tokens example_attributes) ''alice'' ''pw'' Map.empty
     = (Inr None, Map.empty)"
  using authenticate_without_provisioning
          [of "example_env None (Some False)" Map.empty "''alice''"
              "accepting_provider example_tokens example_attributes" "''pw''" example_tokens]
  by (simp add: example_env_simps accepting_provider_simps)

text \<open>
  C4, as amended: with auto-provisioning disabled and an existing record for the username,
  an authentication that the provider accepts rewrites that record as the old row
  overwritten with the mapped fields of the attribute mapper: every column the mapper
  output does not name keeps its value, and no other record changes. This holds provided
  the mapper output does not set the \<open>username\<close> field to \<open>None\<close> or to the username of
  another record; then the save raises \<open>IntegrityError\<close> and nothing is written. (A
  mapped \<open>username\<close> that is free is the new key of the record.)
\<close>

theorem authenticate_overwrites_mapped_fields:
  assumes "\<not> create_unknown_users e"
      and "st uname = Some r"
      and "cognito_authenticate p uname password = Inr t"
      and "cognito_get_user p uname t = Inr attribute_list"
      and "attribute_mapper e attribute_list = (user_attrs, extra_attrs)"
  shows "((case DAList.lookup user_attrs ''username'' of Some v \<Rightarrow> v | None \<Rightarrow> Str uname) = Str n \<and>
          (n = uname \<or> st n = None) \<longrightarrow>
            authenticate e p uname password st =
              (Inr (Some (attach_tokens (django_fields e) t
                            \<lparr>u_username = Str n,
                             u_fields = r ++ (DAList.lookup user_attrs)(''username'' := None),
                             u_attrs = DAList.lookup extra_attrs\<rparr>)),
               (st(uname := None))(n \<mapsto> r ++ (DAList.lookup user_attrs)(''username'' := None)))) \<and>
         ((case DAList.lookup user_attrs ''username'' of Some v \<Rightarrow> v | None \<Rightarrow> Str uname) = PyNone \<or>
          (case DAList.lookup user_attrs ''username'' of Some v \<Rightarrow> v | None \<Rightarrow> Str uname) = Str n \<and>
          n \<noteq> uname \<and> st n \<noteq> None \<longrightarrow>
            authenticate e p uname password st = (Inl IntegrityError, st))"
  using assms(1,2)
  by (auto simp: authenticate_total [OF assms(3,4,5)] split: pyval.splits)

theorem authenticate_overwrites_mapped_fields_witness:
  "\<not> create_unknown_users (example_env None (Some False)) \<and>
   example_store ''alice'' = Some [''email'' \<mapsto> Str ''old@x.com'', ''is_staff'' \<mapsto> Str ''True''] \<and>
   snd (authenticate (example_env None (Some False))
          (accepting_provider example_tokens example_attributes) ''alice'' ''pw'' example_store) =
     [''alice'' \<mapsto>
        [''is_staff'' \<mapsto> Str ''True'', ''email'' \<mapsto> Str ''a@x.com'',
         ''first_name'' \<mapsto> Str ''A'', ''last_name'' \<mapsto> Str ''B'']] \<and>
   (\<exists>u. fst (authenticate (example_env None (Some False))
               (accepting_provider example_tokens example_attributes) ''alice'' ''pw'' example_store)
          = Inr (Some u)) \<and>
   authenticate (example_env (Some username_mapping) (Some False))
       (accepting_provider example_tokens
          [(''preferred_username'', Str ''bob''), (''email'', Str ''new@x.com'')])
       ''alice'' ''pw'' two_user_store = (Inl IntegrityError, two_user_store)"
proof -
  let ?e = "example_env None (Some False)"
  let ?p = "accepting_provider example_tokens example_attributes"
  let ?r = "[''email'' \<mapsto> Str ''old@x.com'', ''is_staff'' \<mapsto> Str ''True'']"
  have 1: "\<not> create_unknown_users ?e"
    by (simp add: example_env_simps)
  have 2: "example_store ''alice'' = Some ?r"
    by (simp add: example_store_def)
  have i: "[''email'' \<mapsto> Str ''a@x.com'', ''first_name'' \<mapsto> Str ''A'', ''last_name'' \<mapsto> Str ''B'']
             (''username'' := None) =
           [''email'' \<mapsto> Str ''a@x.com'', ''first_name'' \<mapsto> Str ''A'', ''last_name'' \<mapsto> Str ''B'']"
    by (auto simp: fun_eq_iff)
  have k: "example_store(''alice'' \<mapsto> row) = [''alice'' \<mapsto> row]" for row
    by (simp add: example_store_def)
  have l: "?r ++ [''email'' \<mapsto> Str ''a@x.com'', ''first_name'' \<mapsto> Str ''A'',
                   ''last_name'' \<mapsto> Str ''B''] =
           [''is_staff'' \<mapsto> Str ''True'', ''email'' \<mapsto> Str ''a@x.com'',
            ''first_name'' \<mapsto> Str ''A'', ''last_name'' \<mapsto> Str ''B'']"
    by (auto simp: fun_eq_iff map_add_def)
  have a: "authenticate ?e ?p ''alice'' ''pw'' example_store =
             (Inr (Some (attach_tokens (django_fields ?e) example_tokens
                            \<lparr>u_username = Str ''alice'',
                             u_fields = ?r ++ [''email'' \<mapsto> Str ''a@x.com'', ''first_name'' \<mapsto> Str ''A'',
                                               ''last_name'' \<mapsto> Str ''B''],
                             u_attrs = DAList.lookup (snd (attribute_mapper ?e example_attributes))\<rparr>)),
              [''alice'' \<mapsto>
                 [''is_staff'' \<mapsto> Str ''True'', ''email'' \<mapsto> Str ''a@x.com'',
                  ''first_name'' \<mapsto> Str ''A'', ''last_name'' \<mapsto> Str ''B'']])"
    using authenticate_overwrites_mapped_fields
            [where st = example_store and uname = "''alice''" and n = "''alice''"
               and e = "example_env None (Some False)"
               and p = "accepting_provider example_tokens example_attributes"
               and password = "''pw''" and t = example_tokens
               and attribute_list = example_attributes,
             OF 1 2 accepting_provider_simps(1) accepting_provider_simps(2)
                attribute_mapper_collapse]
    by (simp add: example_user_attrs i k l)
  let ?e2 = "example_env (Some username_mapping) (Some False)"
  have 3: "\<not> create_unknown_users ?e2"
    by (simp add: example_env_simps)
  have 4: "two_user_store ''alice'' = Some [''email'' \<mapsto> Str ''old@x.com'']"
    by (simp add: two_user_store_def)
  have b: "authenticate ?e2
       (accepting_provider example_tokens
          [(''preferred_username'', Str ''bob''), (''email'', Str ''new@x.com'')])
       ''alice'' ''pw'' two_user_store = (Inl IntegrityError, two_user_store)"
    using authenticate_overwrites_mapped_fields
            [where st = two_user_store and uname = "''alice''" and n = "''bob''"
               and e = "example_env (Some username_mapping) (Some False)"
               and p = "accepting_provider example_tokens
                          [(''preferred_username'', Str ''bob''), (''email'', Str ''new@x.com'')]"
               and password = "''pw''" and t = example_tokens
               and attribute_list =
                 "[(''preferred_username'', Str ''bob''), (''email'', Str ''new@x.com'')]",
             OF 3 4 accepting_provider_simps(1) accepting_provider_simps(2)
                attribute_mapper_collapse]
    by (simp add: username_user_attrs two_user_store_def)
  from 1 2 a b show ?thesis
    by simp
qed

text \<open>
  Without the proviso the claim fails: the provider accepts the login of \<open>alice\<close>, the
  mapper output holds a new \<open>email\<close> and the username of the existing user \<open>bob\<close>, and
  the record of \<open>alice\<close> keeps its old \<open>email\<close>.
\<close>

theorem authenticate_overwrites_mapped_fields_counterexample:
  "\<not> create_unknown_users (example_env (Some username_mapping) (Some False)) \<and>
   two_user_store ''alice'' = Some [''email'' \<mapsto> Str ''old@x.com''] \<and>
   cognito_authenticate
     (accepting_provider example_tokens
        [(''preferred_username'', Str ''bob''), (''email'', Str ''new@x.com'')]) ''alice'' ''pw''
     = Inr example_tokens \<and>
   DAList.lookup
     (fst (attribute_mapper (example_env (Some username_mapping) (Some False))
             [(''preferred_username'', Str ''bob''), (''email'', Str ''new@x.com'')])) ''email''
     = Some (Str ''new@x.com'') \<and>
   authenticate (example_env (Some username_mapping) (Some False))
       (accepting_provider example_tokens
          [(''preferred_username'', Str ''bob''), (''email'', Str ''new@x.com'')])
       ''alice'' ''pw'' two_user_store = (Inl IntegrityError, two_user_store)"
  by (simp add: authenticate_total
          [OF accepting_provider_simps(1) accepting_provider_simps(2) attribute_mapper_collapse]
        username_user_attrs example_env_simps accepting_provider_simps two_user_store_def)

section \<open>The attribute mapper and the extra attributes\<close>

text \<open>
  C5, as amended: the attribute-mapping step, with the helper as the specification
  describes it, renames every provider key by the mapping and then splits the renamed
  keys by the fields of the user model. A renamed key that is a field of the model goes
  to the mapped fields, every other one to the extra fields: the two outputs have no key
  in common and together they are the dictionary of the helper, so no key is duplicated
  or dropped. The outputs are the ones the specification describes (the keys present in
  the mapping, renamed, and the leftover keys with their raw values) exactly when every
  key present in the mapping is sent to a field of the model and no leftover key is the
  name of a field.
\<close>

theorem attribute_mapper_partition:
  assumes c: "utils_cognito_to_dict e = cognito_to_dict"
      and m: "attribute_mapper e attribute_list = (user_attrs, extra_attrs)"
  shows "dom (DAList.lookup user_attrs) \<inter> dom (DAList.lookup extra_attrs) = {} \<and>
         DAList.lookup user_attrs ++ DAList.lookup extra_attrs =
           DAList.lookup (cognito_to_dict attribute_list (CognitoUser_COGNITO_ATTR_MAPPING e)) \<and>
         dom (DAList.lookup user_attrs) =
           rename (CognitoUser_COGNITO_ATTR_MAPPING e) ` fst ` set attribute_list
             \<inter> set (django_fields e) \<and>
         dom (DAList.lookup extra_attrs) =
           rename (CognitoUser_COGNITO_ATTR_MAPPING e) ` fst ` set attribute_list
             - set (django_fields e) \<and>
         ((\<forall>(name, v) \<in> set attribute_list.
             (map_of (CognitoUser_COGNITO_ATTR_MAPPING e) name \<noteq> None \<longrightarrow>
                rename (CognitoUser_COGNITO_ATTR_MAPPING e) name \<in> set (django_fields e)) \<and>
             (map_of (CognitoUser_COGNITO_ATTR_MAPPING e) name = None \<longrightarrow>
                name \<notin> set (django_fields e))) =
          ((DAList.lookup user_attrs, DAList.lookup extra_attrs) =
              spec_attribute_mapper attribute_list (CognitoUser_COGNITO_ATTR_MAPPING e)))"
proof -
  let ?M = "CognitoUser_COGNITO_ATTR_MAPPING e"
  let ?fs = "set (django_fields e)"
  let ?D = "DAList.lookup (cognito_to_dict attribute_list ?M)"
  let ?H = "\<forall>(name, v) \<in> set attribute_list.
             (map_of ?M name \<noteq> None \<longrightarrow> rename ?M name \<in> ?fs) \<and>
             (map_of ?M name = None \<longrightarrow> name \<notin> ?fs)"
  have ua: "DAList.lookup user_attrs = ?D |` ?fs"
    and ex: "DAList.lookup extra_attrs = ?D |` (- ?fs)"
    using attribute_mapper_lookup [OF m] by (simp_all add: c)
  have 1: "dom (DAList.lookup user_attrs) \<inter> dom (DAList.lookup extra_attrs) = {}"
    by (auto simp: ua ex)
  have 2: "DAList.lookup user_attrs ++ DAList.lookup extra_attrs = ?D"
    by (auto simp: ua ex fun_eq_iff map_add_def restrict_map_def split: option.splits)
  have d: "dom ?D = rename ?M ` fst ` set attribute_list"
    by (force simp: lookup_cognito_to_dict dom_map_of_conv_image_fst)
  have 3: "dom (DAList.lookup user_attrs) = rename ?M ` fst ` set attribute_list \<inter> ?fs"
    by (simp add: ua d)
  have 4: "dom (DAList.lookup extra_attrs) = rename ?M ` fst ` set attribute_list - ?fs"
    by (auto simp: ex d)
  have 5: "(DAList.lookup user_attrs, DAList.lookup extra_attrs) =
              spec_attribute_mapper attribute_list ?M"
    if h: ?H
  proof -
    have a: "\<forall>(name, v) \<in> set attribute_list. (rename ?M name \<in> ?fs) = (map_of ?M name \<noteq> None)"
      using h by (fastforce simp: rename_def split: option.splits)
    have b: "\<forall>(name, v) \<in> set attribute_list. (rename ?M name \<in> - ?fs) = (map_of ?M name = None)"
      using h by (fastforce simp: rename_def split: option.splits)
    show ?thesis
      unfolding ua ex lookup_cognito_to_dict spec_attribute_mapper_def
        restrict_renamed [of attribute_list "rename ?M" ?fs "\<lambda>name. map_of ?M name \<noteq> None", OF a]
        restrict_renamed [of attribute_list "rename ?M" "- ?fs" "\<lambda>name. map_of ?M name = None", OF b]
        map_rename_unmapped
      by simp
  qed
  have 6: ?H
    if q: "(DAList.lookup user_attrs, DAList.lookup extra_attrs) =
              spec_attribute_mapper attribute_list ?M"
  proof -
    have du: "dom (DAList.lookup user_attrs) =
                fst ` set (map (\<lambda>(name, v). (rename ?M name, v))
                            (filter (\<lambda>(name, v). map_of ?M name \<noteq> None) attribute_list))"
      using q by (simp add: spec_attribute_mapper_def dom_map_of_conv_image_fst)
    have de: "dom (DAList.lookup extra_attrs) =
                fst ` set (filter (\<lambda>(name, v). map_of ?M name = None) attribute_list)"
      using q by (simp add: spec_attribute_mapper_def dom_map_of_conv_image_fst)
    have "rename ?M name \<in> ?fs"
      if "(name, v) \<in> set attribute_list" "map_of ?M name \<noteq> None" for name v
    proof -
      have "rename ?M name \<in> dom (DAList.lookup user_attrs)"
        unfolding du using that by force
      then show ?thesis
        by (simp add: 3)
    qed
    moreover have "name \<notin> ?fs"
      if "(name, v) \<in> set attribute_list" "map_of ?M name = None" for name v
    proof -
      have "name \<in> dom (DAList.lookup extra_attrs)"
        unfolding de using that by force
      then show ?thesis
        by (simp add: 4)
    qed
    ultimately show ?thesis
      by blast
  qed
  from 5 6 have "?H = ((DAList.lookup user_attrs, DAList.lookup extra_attrs) =
              spec_attribute_mapper attribute_list ?M)"
    by blast
  with 1 2 3 4 show ?thesis
    by blast
qed

theorem attribute_mapper_partition_witness:
  "utils_cognito_to_dict (example_env None None) = cognito_to_dict \<and>
   (DAList.lookup (fst (attribute_mapper (example_env None None) profile_attributes)),
    DAList.lookup (snd (attribute_mapper (example_env None None) profile_attributes))) =
     spec_attribute_mapper profile_attributes default_attr_mapping \<and>
   spec_attribute_mapper profile_attributes default_attr_mapping =
     ([''email'' \<mapsto> Str ''a@x.com'', ''first_name'' \<mapsto> Str ''A'', ''last_name'' \<mapsto> Str ''B''],
      [''sub'' \<mapsto> Str ''u-1'']) \<and>
   (DAList.lookup (fst (attribute_mapper (example_env (Some webapp_attr_mapping) None)
                          webapp_attributes)),
    DAList.lookup (snd (attribute_mapper (example_env (Some webapp_attr_mapping) None)
                          webapp_attributes)))
     \<noteq> spec_attribute_mapper webapp_attributes webapp_attr_mapping"
proof -
  let ?e = "example_env None None"
  have c: "utils_cognito_to_dict ?e = cognito_to_dict"
    by (simp add: example_env_simps)
  have h: "\<forall>(name, v) \<in> set profile_attributes.
             (map_of (CognitoUser_COGNITO_ATTR_MAPPING ?e) name \<noteq> None \<longrightarrow>
                rename (CognitoUser_COGNITO_ATTR_MAPPING ?e) name \<in> set (django_fields ?e)) \<and>
             (map_of (CognitoUser_COGNITO_ATTR_MAPPING ?e) name = None \<longrightarrow>
                name \<notin> set (django_fields ?e))"
    by (simp add: example_env_simps profile_attributes_def example_attributes_def
          default_attr_mapping_def rename_def django_user_fields_def)
  have s: "spec_attribute_mapper profile_attributes default_attr_mapping =
     ([''email'' \<mapsto> Str ''a@x.com'', ''first_name'' \<mapsto> Str ''A'', ''last_name'' \<mapsto> Str ''B''],
      [''sub'' \<mapsto> Str ''u-1''])"
    by (simp add: spec_attribute_mapper_def profile_attributes_def example_attributes_def
          default_attr_mapping_def rename_def)
  from attribute_mapper_partition [OF c attribute_mapper_collapse, of profile_attributes] h
  have 1: "(DAList.lookup (fst (attribute_mapper ?e profile_attributes)),
         DAList.lookup (snd (attribute_mapper ?e profile_attributes))) =
          spec_attribute_mapper profile_attributes (CognitoUser_COGNITO_ATTR_MAPPING ?e)"
    by blast
  let ?w = "example_env (Some webapp_attr_mapping) None"
  have cw: "utils_cognito_to_dict ?w = cognito_to_dict"
    by (simp add: example_env_simps)
  have n: "\<not> (\<forall>(name, v) \<in> set webapp_attributes.
             (map_of (CognitoUser_COGNITO_ATTR_MAPPING ?w) name \<noteq> None \<longrightarrow>
                rename (CognitoUser_COGNITO_ATTR_MAPPING ?w) name \<in> set (django_fields ?w)) \<and>
             (map_of (CognitoUser_COGNITO_ATTR_MAPPING ?w) name = None \<longrightarrow>
                name \<notin> set (django_fields ?w)))"
    by (simp add: example_env_simps webapp_attributes_def example_attributes_def
          webapp_attr_mapping_def rename_def django_user_fields_def)
  from attribute_mapper_partition [OF cw attribute_mapper_collapse, of webapp_attributes] n
  have 2: "(DAList.lookup (fst (attribute_mapper ?w webapp_attributes)),
            DAList.lookup (snd (attribute_mapper ?w webapp_attributes)))
             \<noteq> spec_attribute_mapper webapp_attributes (CognitoUser_COGNITO_ATTR_MAPPING ?w)"
    by blast
  from c s 1 2 show ?thesis
    by (simp add: example_env_simps)
qed

text \<open>
  Without that condition the description of the two outputs fails. Under the mapping of
  webapp/settings.py the provider attribute \<open>custom:api_key\<close> is present in the mapping,
  as \<open>api_key\<close>; the user model has no such field, so the code puts it in the extra
  fields, under its local name, where the specification has it in the mapped fields.
\<close>

theorem attribute_mapper_partition_counterexample:
  "map_of webapp_attr_mapping ''custom:api_key'' = Some ''api_key'' \<and>
   DAList.lookup (fst (attribute_mapper (example_env (Some webapp_attr_mapping) None)
                         webapp_attributes)) ''api_key'' = None \<and>
   DAList.lookup (snd (attribute_mapper (example_env (Some webapp_attr_mapping) None)
                         webapp_attributes)) ''api_key'' = Some (Str ''k1'') \<and>
   fst (spec_attribute_mapper webapp_attributes webapp_attr_mapping) ''api_key'' = Some (Str ''k1'') \<and>
   snd (spec_attribute_mapper webapp_attributes webapp_attr_mapping) ''api_key'' = None \<and>
   (DAList.lookup (fst (attribute_mapper (example_env (Some webapp_attr_mapping) None)
                          webapp_attributes)),
    DAList.lookup (snd (attribute_mapper (example_env (Some webapp_attr_mapping) None)
                          webapp_attributes)))
     \<noteq> spec_attribute_mapper webapp_attributes webapp_attr_mapping"
proof -
  have s: "spec_attribute_mapper webapp_attributes webapp_attr_mapping =
     ([''email'' \<mapsto> Str ''a@x.com'', ''first_name'' \<mapsto> Str ''A'', ''last_name'' \<mapsto> Str ''B'',
       ''api_key'' \<mapsto> Str ''k1''], Map.empty)"
    by (simp add: spec_attribute_mapper_def webapp_attributes_def example_attributes_def
          webapp_attr_mapping_def rename_def)
  have n: "[''api_key'' \<mapsto> Str ''k1''] \<noteq> (Map.empty :: row)"
    by simp
  show ?thesis
    unfolding webapp_user_attrs webapp_extra_attrs s
    using n by (simp add: webapp_attr_mapping_def)
qed




section \<open>The session\<close>

text \<open>
  C7: the provider client holds three non-empty token strings after a login that it
  accepts. Then the session binder returns what the backend's \<open>authenticate\<close> returns;
  whenever that is a user record, the record carries the three non-empty tokens, the
  session holds them under \<open>ACCESS_TOKEN\<close>, \<open>ID_TOKEN\<close> and \<open>REFRESH_TOKEN\<close> with every
  other key as before, and the session is saved; whenever it is \<open>None\<close> or an exception,
  the session is the session before, with no key written.
\<close>

theorem session_binder:
  assumes out: "CognitoBackend_authenticate e p sess uname password st = (r, st', sess')"
      and tok: "\<forall>t. cognito_authenticate p uname password = Inr t \<longrightarrow>
                  (\<exists>a i f. access_token t = Str a \<and> a \<noteq> [] \<and>
                           id_token t = Str i \<and> i \<noteq> [] \<and>
                           refresh_token t = Str f \<and> f \<noteq> [])"
  shows "(r, st') = authenticate e p uname password st \<and>
         (\<forall>u. r = Inr (Some u) \<longrightarrow>
            (\<exists>t a i f.
                 cognito_authenticate p uname password = Inr t \<and>
                 access_token t = Str a \<and> id_token t = Str i \<and> refresh_token t = Str f \<and>
                 a \<noteq> [] \<and> i \<noteq> [] \<and> f \<noteq> [] \<and>
                 getattr (django_fields e) u ''access_token'' = Some (Str a) \<and>
                 getattr (django_fields e) u ''id_token'' = Some (Str i) \<and>
                 getattr (django_fields e) u ''refresh_token'' = Some (Str f) \<and>
                 s_data sess' = (s_data sess)
                   (''ACCESS_TOKEN'' \<mapsto> Str a, ''ID_TOKEN'' \<mapsto> Str i, ''REFRESH_TOKEN'' \<mapsto> Str f) \<and>
                 s_stored sess' = s_data sess')) \<and>
         ((\<forall>u. r \<noteq> Inr (Some u)) \<longrightarrow> sess' = sess)"
proof (intro conjI allI impI)
  show "(r, st') = authenticate e p uname password st"
  proof (cases "authenticate e p uname password st")
    case (Pair r0 st0)
    show ?thesis
    proof (cases "\<exists>u. r0 = Inr (Some u)")
      case True
      then obtain u where r0: "r0 = Inr (Some u)" by blast
      from authenticate_Some [OF Pair [unfolded r0]] obtain t u0
        where "cognito_authenticate p uname password = Inr t"
        by blast
      with out show ?thesis
        by (simp add: CognitoBackend_authenticate_cases Pair r0)
    next
      case False
      with out show ?thesis
        by (auto simp: CognitoBackend_authenticate_cases Pair split: sum.splits option.splits)
    qed
  qed
next
  fix u
  assume r: "r = Inr (Some u)"
  from out have a: "authenticate e p uname password st = (Inr (Some u), st')"
    by (auto simp: CognitoBackend_authenticate_cases r
          split: prod.splits sum.splits option.splits)
  from authenticate_Some [OF a] obtain t u0
    where t: "cognito_authenticate p uname password = Inr t"
      and u: "u = attach_tokens (django_fields e) t u0"
    by blast
  from tok t obtain x i f
    where n: "access_token t = Str x" "x \<noteq> []" "id_token t = Str i" "i \<noteq> []"
             "refresh_token t = Str f" "f \<noteq> []"
    by blast
  from out have s: "sess' = session_save (session_set ''REFRESH_TOKEN'' (refresh_token t)
                  (session_set ''ID_TOKEN'' (id_token t)
                    (session_set ''ACCESS_TOKEN'' (access_token t) sess)))"
    by (simp add: CognitoBackend_authenticate_cases a t)
  have "cognito_authenticate p uname password = Inr t \<and>
                 access_token t = Str x \<and> id_token t = Str i \<and> refresh_token t = Str f \<and>
                 x \<noteq> [] \<and> i \<noteq> [] \<and> f \<noteq> [] \<and>
                 getattr (django_fields e) u ''access_token'' = Some (Str x) \<and>
                 getattr (django_fields e) u ''id_token'' = Some (Str i) \<and>
                 getattr (django_fields e) u ''refresh_token'' = Some (Str f) \<and>
                 s_data sess' = (s_data sess)
                   (''ACCESS_TOKEN'' \<mapsto> Str x, ''ID_TOKEN'' \<mapsto> Str i, ''REFRESH_TOKEN'' \<mapsto> Str f) \<and>
                 s_stored sess' = s_data sess'"
    using t n by (simp add: u s getattr_attach_tokens session_save_def session_set_def)
  then show "\<exists>t a i f.
                 cognito_authenticate p uname password = Inr t \<and>
                 access_token t = Str a \<and> id_token t = Str i \<and> refresh_token t = Str f \<and>
                 a \<noteq> [] \<and> i \<noteq> [] \<and> f \<noteq> [] \<and>
                 getattr (django_fields e) u ''access_token'' = Some (Str a) \<and>
                 getattr (django_fields e) u ''id_token'' = Some (Str i) \<and>
                 getattr (django_fields e) u ''refresh_token'' = Some (Str f) \<and>
                 s_data sess' = (s_data sess)
                   (''ACCESS_TOKEN'' \<mapsto> Str a, ''ID_TOKEN'' \<mapsto> Str i, ''REFRESH_TOKEN'' \<mapsto> Str f) \<and>
                 s_stored sess' = s_data sess'"
    by (intro exI [of _ t] exI [of _ x] exI [of _ i] exI [of _ f])
next
  assume "\<forall>u. r \<noteq> Inr (Some u)"
  with out show "sess' = sess"
    by (auto simp: CognitoBackend_authenticate_cases split: prod.splits sum.splits option.splits)
qed

theorem session_binder_witness:
  "(\<exists>u st' sess'.
      CognitoBackend_authenticate (example_env None None)
        (accepting_provider example_tokens example_attributes) empty_session ''alice'' ''pw'' Map.empty
        = (Inr (Some u), st', sess') \<and>
      getattr django_user_fields u ''access_token'' = Some (Str ''acc'') \<and>
      getattr django_user_fields u ''id_token'' = Some (Str ''idt'') \<and>
      getattr django_user_fields u ''refresh_token'' = Some (Str ''ref'') \<and>
      s_data sess' = [''ACCESS_TOKEN'' \<mapsto> Str ''acc'', ''ID_TOKEN'' \<mapsto> Str ''idt'',
                      ''REFRESH_TOKEN'' \<mapsto> Str ''ref''] \<and>
      s_stored sess' = s_data sess') \<and>
   CognitoBackend_authenticate (example_env None None) (failing_provider not_authorized)
     empty_session ''alice'' ''pw'' Map.empty = (Inr None, Map.empty, empty_session)"
proof -
  let ?e = "example_env None None"
  let ?p = "accepting_provider example_tokens example_attributes"
  let ?u = "attach_tokens (django_fields ?e) example_tokens
                 \<lparr>u_username = Str ''alice'',
                  u_fields = DAList.lookup (fst (attribute_mapper ?e example_attributes)),
                  u_attrs = DAList.lookup (snd (attribute_mapper ?e example_attributes))\<rparr>"
  let ?s = "session_save (session_set ''REFRESH_TOKEN'' (refresh_token example_tokens)
              (session_set ''ID_TOKEN'' (id_token example_tokens)
                (session_set ''ACCESS_TOKEN'' (access_token example_tokens) empty_session)))"
  note c = CognitoBackend_authenticate_accepted [OF example_authenticate, of example_tokens empty_session]
  have k: "\<forall>t. cognito_authenticate ?p ''alice'' ''pw'' = Inr t \<longrightarrow>
                  (\<exists>a i f. access_token t = Str a \<and> a \<noteq> [] \<and>
                           id_token t = Str i \<and> i \<noteq> [] \<and>
                           refresh_token t = Str f \<and> f \<noteq> [])"
    by (simp add: accepting_provider_simps example_tokens_def)
  from session_binder [OF c k]
  have "\<exists>t a i f.
          cognito_authenticate ?p ''alice'' ''pw'' = Inr t \<and>
          access_token t = Str a \<and> id_token t = Str i \<and> refresh_token t = Str f \<and>
          getattr (django_fields ?e) ?u ''access_token'' = Some (Str a) \<and>
          getattr (django_fields ?e) ?u ''id_token'' = Some (Str i) \<and>
          getattr (django_fields ?e) ?u ''refresh_token'' = Some (Str f) \<and>
          s_data ?s = (s_data empty_session)
            (''ACCESS_TOKEN'' \<mapsto> Str a, ''ID_TOKEN'' \<mapsto> Str i, ''REFRESH_TOKEN'' \<mapsto> Str f) \<and>
          s_stored ?s = s_data ?s"
    by blast
  then have 1: "\<exists>u st' sess'.
      CognitoBackend_authenticate ?e ?p empty_session ''alice'' ''pw'' Map.empty
        = (Inr (Some u), st', sess') \<and>
      getattr django_user_fields u ''access_token'' = Some (Str ''acc'') \<and>
      getattr django_user_fields u ''id_token'' = Some (Str ''idt'') \<and>
      getattr django_user_fields u ''refresh_token'' = Some (Str ''ref'') \<and>
      s_data sess' = [''ACCESS_TOKEN'' \<mapsto> Str ''acc'', ''ID_TOKEN'' \<mapsto> Str ''idt'',
                      ''REFRESH_TOKEN'' \<mapsto> Str ''ref''] \<and>
      s_stored sess' = s_data sess'"
    unfolding c
    by (auto simp: accepting_provider_simps example_env_simps example_tokens_def empty_session_def)
  have f: "CognitoBackend_authenticate ?e (failing_provider not_authorized)
     empty_session ''alice'' ''pw'' Map.empty = (Inr None, Map.empty, empty_session)"
    by (simp add: CognitoBackend_authenticate_def authenticate_raise [OF failing_provider_simps(1)]
          handle_error_response_code [OF example_error_codes(1)]
          error_code_caught [OF example_error_codes(1)])
  have kf: "\<forall>t. cognito_authenticate (failing_provider not_authorized) ''alice'' ''pw'' = Inr t \<longrightarrow>
                  (\<exists>a i f. access_token t = Str a \<and> a \<noteq> [] \<and>
                           id_token t = Str i \<and> i \<noteq> [] \<and>
                           refresh_token t = Str f \<and> f \<noteq> [])"
    by (simp add: failing_provider_simps)
  from session_binder [OF f kf]
  have 2: "(Inr None, Map.empty) =
             authenticate ?e (failing_provider not_authorized) ''alice'' ''pw'' Map.empty"
    by blast
  from 1 2 f show ?thesis
    by blast
qed

text \<open>
  C8: after a logout the session holds nothing, in the request and in the session
  store; in particular the keys \<open>ACCESS_TOKEN\<close>, \<open>ID_TOKEN\<close> and \<open>REFRESH_TOKEN\<close> are
  gone. A following request to the profile view, which reads its session from the
  store, finds no refresh token and is denied, whether or not the framework takes its
  user as authenticated.
\<close>

theorem logout_denies_profile:
  "s_data (r_session (LogoutView_dispatch req)) = Map.empty \<and>
   s_stored (r_session (LogoutView_dispatch req)) = Map.empty \<and>
   session_get (r_session (LogoutView_dispatch req)) ''ACCESS_TOKEN'' = PyNone \<and>
   session_get (r_session (LogoutView_dispatch req)) ''ID_TOKEN'' = PyNone \<and>
   session_get (r_session (LogoutView_dispatch req)) ''REFRESH_TOKEN'' = PyNone \<and>
   session_get (r_session (following_request auth (LogoutView_dispatch req))) ''REFRESH_TOKEN''
     = PyNone \<and>
   TokenMixin_dispatch (following_request auth (LogoutView_dispatch req)) view
     = HandleNoPermission \<and>
   ProfileView_dispatch (following_request auth (LogoutView_dispatch req)) view
     = HandleNoPermission"
  by (simp add: LogoutView_dispatch_def session_flush_def session_delete_def session_get_def
        following_request_def TokenMixin_dispatch_def ProfileView_dispatch_def)

theorem logout_denies_profile_witness:
  "ProfileView_dispatch logged_in_request ViewResponse = ViewResponse \<and>
   ProfileView_dispatch (following_request True (LogoutView_dispatch logged_in_request)) ViewResponse
     = HandleNoPermission"
  using logout_denies_profile [of logged_in_request True ViewResponse]
  by (simp add: ProfileView_dispatch_def TokenMixin_dispatch_def logged_in_request_def
        session_get_def)

section \<open>Error policy at the provider call sites\<close>




end
